theory Spec2Isabelle
  imports Complex_Main "HOL-Library.AList" "HOL-Library.Sublist" "HOL-Library.Multiset"
begin

section \<open>JavaScript values, strings and containers\<close>

text \<open>
  The registry (tool-registry.ts) and the dispatch facade (meta-tools.ts) are embedded as
  pure functions over an explicit registry state.

  \<^item> A number is a \<open>js_number\<close>: a finite double is the rational it denotes, beside the two
    infinities and \<open>NaN\<close>. Counts and scores are integers and are kept as \<open>int\<close>.
  \<^item> A JavaScript value of type \<open>unknown\<close> is a \<open>jsval\<close>. \<open>JBigInt\<close> and \<open>JCyclic\<close> (an object
    or array that contains itself) are the values \<open>JSON.stringify\<close> throws on.
  \<^item> A plain object is the association list of its own enumerable properties, a \<open>Map\<close>
    that of its entries, both in insertion order with distinct keys: \<open>get\<close> is \<open>map_of\<close>,
    and \<open>set\<close> (or the assignment of an ordinary property) is \<open>AList.update\<close>, which
    overwrites in place and appends a new key at the end, as both do in JavaScript. The
    one difference is the order in which JavaScript enumerates an object whose keys
    include array indices, which come first; where a key can be one (the parameter names
    of a schema map), the theorem on the result speaks of its properties and not of
    their order.
  \<^item> A string is a \<open>string\<close>, a character outside ASCII held as its UTF-8 bytes.
    \<open>String.prototype.toLowerCase\<close> maps the capitals of an ASCII string to small letters;
    what it does to any other string is the platform's business and is the parameter
    \<open>low\<close> of every function that lowers a string.
\<close>

datatype js_number = Finite rat | PosInfinity | NegInfinity | NaN


datatype jsval =
    JUndefined
  | JNull
  | JBool bool
  | JNum js_number
  | JBigInt int
  | JStr string
  | JArr "jsval list"
  | JObj "(string \<times> jsval) list"
  | JCyclic

type_synonym jsobj = "(string \<times> jsval) list"

text \<open>
  \<open>JSON.stringify(v)\<close> returns for these values and throws a \<open>TypeError\<close> for the others.
\<close>

fun stringifiable :: "jsval \<Rightarrow> bool"
  and stringifiable_all :: "jsval list \<Rightarrow> bool"
  and stringifiable_props :: "(string \<times> jsval) list \<Rightarrow> bool"
where
  "stringifiable (JBigInt n) = False"
| "stringifiable JCyclic = False"
| "stringifiable (JArr vs) = stringifiable_all vs"
| "stringifiable (JObj ps) = stringifiable_props ps"
| "stringifiable JUndefined = True"
| "stringifiable JNull = True"
| "stringifiable (JBool b) = True"
| "stringifiable (JNum x) = True"
| "stringifiable (JStr s) = True"
| "stringifiable_all [] = True"
| "stringifiable_all (v # vs) = (stringifiable v \<and> stringifiable_all vs)"
| "stringifiable_props [] = True"
| "stringifiable_props ((k, v) # ps) = (stringifiable v \<and> stringifiable_props ps)"

definition isAscii :: "string \<Rightarrow> bool" where
  "isAscii s = list_all (\<lambda>c. \<not> digit7 c) s"

definition toLowerCaseChar :: "char \<Rightarrow> char" where
  "toLowerCaseChar c =
     (case map_of (zip ''ABCDEFGHIJKLMNOPQRSTUVWXYZ'' ''abcdefghijklmnopqrstuvwxyz'') c of
        None \<Rightarrow> c
      | Some l \<Rightarrow> l)"

definition toLowerCase :: "(string \<Rightarrow> string) \<Rightarrow> string \<Rightarrow> string" where
  "toLowerCase low s = (if isAscii s then map toLowerCaseChar s else low s)"

text \<open>\<open>s.includes(q)\<close>: \<open>q\<close> occurs in \<open>s\<close> as a contiguous substring.\<close>

fun str_includes :: "string \<Rightarrow> string \<Rightarrow> bool" where
  "str_includes [] q = (q = [])"
| "str_includes (c # cs) q = (prefix q (c # cs) \<or> str_includes cs q)"

text \<open>
  \<open>s.replace(p, "")\<close> with a string pattern: the first occurrence of \<open>p\<close> is removed,
  and \<open>s\<close> is returned as it is when \<open>p\<close> does not occur.
\<close>

fun replace_first :: "string \<Rightarrow> string \<Rightarrow> string" where
  "replace_first [] p = []"
| "replace_first (c # cs) p =
     (if prefix p (c # cs) then drop (length p) (c # cs) else c # replace_first cs p)"





section \<open>Schema objects of the validation library\<close>

text \<open>
  The walker reads a schema only through its \<open>_def\<close> object and the fields of the
  \<open>ZodDef\<close> interface, all of them optional but \<open>typeName\<close>. A field that is absent is
  \<open>None\<close>; \<open>shape\<close> and \<open>defaultValue\<close> are thunks in the source and hold here the value
  the thunk returns.
\<close>

datatype zodCheck = ZodCheck (kind: string) (cvalue: jsval)

datatype zodType =
    NoDef
  | ZodDef
      (typeName: string)
      (zdescription: "string option")
      (checks: "zodCheck list option")
      (zvalues: "jsval list option")
      (innerType: "zodType option")
      (shape: "(string \<times> zodType) list option")
      (ztype: "zodType option")
      (defaultValue: "jsval option")
      (options: "zodType list option")
      (minLength: "js_number option")
      (maxLength: "js_number option")

type_synonym zodSchema = "(string \<times> zodType) list"

section \<open>Tool results and handlers\<close>

datatype content_block = TextBlock (block_text: string)

record tool_result =
  content :: "content_block list"
  structuredContent :: "jsobj option"
  isError :: "bool option"

text \<open>
  What a handler can throw or reject with: a value whose \<open>message\<close> property reads as a
  string (an \<open>Error\<close>), a value on which \<open>message\<close> reads as \<open>undefined\<close> (a thrown
  string or number, say), or \<open>null\<close>/\<open>undefined\<close> themselves, on which reading a property
  is a \<open>TypeError\<close>.
\<close>

datatype thrown = ErrorWithMessage string | ValueWithoutMessage | Nullish

datatype handler_outcome =
    Resolves tool_result
  | ThrowsSync thrown
  | Rejects thrown
  | NeverSettles

type_synonym toolHandler = "jsobj \<Rightarrow> handler_outcome"

section \<open>The registry\<close>

record toolInfo =
  info_name :: string
  info_title :: string
  info_description :: string
  info_category :: string
  inputSchema :: zodSchema
  outputSchema :: zodSchema

record toolSummary =
  summary_name :: string
  summary_description :: string

record categoryInfo =
  cat_name :: string
  cat_description :: string
  toolCount :: int

record registeredTool =
  info :: toolInfo
  handler :: toolHandler

record toolRegistry =
  tools :: "(string \<times> registeredTool) list"
  categories :: "(string \<times> categoryInfo) list"
  toolsByCategory :: "(string \<times> string list) list"

definition categoryDefs :: "(string \<times> string) list" where
  "categoryDefs =
    [(''messaging'',
        ''Send, read, edit, delete messages. Add reactions, pin/unpin messages.''),
     (''channels'',
        ''Create, modify, delete channels. Manage text, voice, forum, stage channels and threads.''),
     (''members'',
        ''Get member info, list members, manage nicknames, assign/remove roles.''),
     (''roles'',
        ''Create, modify, delete roles. List roles and get role details.''),
     (''server'',
        ''Server info, settings, audit logs, webhooks, and invites.''),
     (''moderation'',
        ''Kick, ban, unban, timeout members. View ban list.''),
     (''emojis'',
        ''List, create, modify, delete custom emojis.''),
     (''stickers'',
        ''List, create, modify, delete custom stickers.''),
     (''scheduled-events'',
        ''Create, modify, delete scheduled events. List events and attendees.''),
     (''automod'',
        ''Create, modify, delete auto-moderation rules for content filtering.''),
     (''application-commands'',
        ''Manage slash commands and context menu commands for the bot.'')]"

definition initCategory :: "toolRegistry \<Rightarrow> string \<times> string \<Rightarrow> toolRegistry" where
  "initCategory r cat =
     r\<lparr>categories :=
          AList.update (fst cat)
            \<lparr>cat_name = fst cat, cat_description = snd cat, toolCount = 0\<rparr> (categories r),
        toolsByCategory := AList.update (fst cat) [] (toolsByCategory r)\<rparr>"

definition initializeCategories :: "toolRegistry \<Rightarrow> toolRegistry" where
  "initializeCategories r = foldl initCategory r categoryDefs"

text \<open>The constructor: three empty tables, then \<open>initializeCategories\<close>.\<close>

definition new_registry :: toolRegistry where
  "new_registry = initializeCategories \<lparr>tools = [], categories = [], toolsByCategory = []\<rparr>"

definition registerTool ::
  "string \<Rightarrow> string \<Rightarrow> string \<Rightarrow> string \<Rightarrow> zodSchema \<Rightarrow> zodSchema \<Rightarrow> toolHandler
     \<Rightarrow> toolRegistry \<Rightarrow> toolRegistry" where
  "registerTool name category title description inSchema outSchema h r =
     (let i = \<lparr>info_name = name, info_title = title, info_description = description,
                info_category = category, inputSchema = inSchema, outputSchema = outSchema\<rparr>;
          r1 = r\<lparr>tools := AList.update name \<lparr>info = i, handler = h\<rparr> (tools r)\<rparr>
      in case map_of (toolsByCategory r1) category of
           None \<Rightarrow> r1
         | Some categoryTools \<Rightarrow>
             (let r2 = r1\<lparr>toolsByCategory :=
                          AList.update category (categoryTools @ [name]) (toolsByCategory r1)\<rparr>
              in case map_of (categories r2) category of
                   None \<Rightarrow> r2
                 | Some catInfo \<Rightarrow>
                     r2\<lparr>categories :=
                          AList.update category (catInfo\<lparr>toolCount := toolCount catInfo + 1\<rparr>)
                            (categories r2)\<rparr>))"

definition listCategories :: "toolRegistry \<Rightarrow> categoryInfo list" where
  "listCategories r = filter (\<lambda>cat. toolCount cat > 0) (map snd (categories r))"

definition listTools :: "(string \<Rightarrow> string) \<Rightarrow> toolRegistry \<Rightarrow> string \<Rightarrow> toolSummary list" where
  "listTools low r category =
     (case map_of (toolsByCategory r) (toLowerCase low category) of
        None \<Rightarrow> []
      | Some toolNames \<Rightarrow>
          map (\<lambda>name.
                 \<lparr>summary_name = name,
                  summary_description =
                    (case map_of (tools r) name of
                       None \<Rightarrow> ''''
                     | Some tool \<Rightarrow> info_description (info tool))\<rparr>)
              toolNames)"

definition getToolSchema :: "toolRegistry \<Rightarrow> string \<Rightarrow> toolInfo option" where
  "getToolSchema r toolName = map_option info (map_of (tools r) toolName)"

definition getHandler :: "toolRegistry \<Rightarrow> string \<Rightarrow> toolHandler option" where
  "getHandler r toolName = map_option handler (map_of (tools r) toolName)"

definition hasTool :: "toolRegistry \<Rightarrow> string \<Rightarrow> bool" where
  "hasTool r toolName = (map_of (tools r) toolName \<noteq> None)"

definition getAllToolNames :: "toolRegistry \<Rightarrow> string list" where
  "getAllToolNames r = map fst (tools r)"

text \<open>
  \<open>searchTools\<close>. \<open>toolScore\<close> is the body of the loop for one entry of the tool table,
  \<open>searchResults\<close> the \<open>results\<close> array when the loop ends. \<open>Array.prototype.sort\<close> is
  stable, and the comparator \<open>b.score - a.score\<close> orders by descending score, which is a
  stable sort on the negated score. A call that leaves \<open>limit\<close> out passes \<open>None\<close>.
\<close>

record scoredResult =
  score :: int
  tool :: toolSummary






section \<open>Schema serialization\<close>

text \<open>
  The walker returns a plain object. Reading a property of \<open>undefined\<close>, or calling it,
  is a \<open>TypeError\<close>: that is what the non-null assertions \<open>def.type!\<close>, \<open>def.innerType!\<close>,
  \<open>def.shape!()\<close>, \<open>def.defaultValue!()\<close> and \<open>def.options!\<close> come to when the field is
  absent.
\<close>

datatype js_fault = TypeError

definition handleZodStringCheck :: "jsobj \<Rightarrow> zodCheck \<Rightarrow> jsobj" where
  "handleZodStringCheck schema check =
     (let schema1 = (if kind check = ''max''
                     then AList.update ''maxLength'' (cvalue check) schema else schema)
      in if kind check = ''min''
         then AList.update ''minLength'' (cvalue check) schema1 else schema1)"

definition handleZodString :: "zodCheck list option \<Rightarrow> jsobj" where
  "handleZodString chks =
     foldl handleZodStringCheck [(''type'', JStr ''string'')]
       (case chks of None \<Rightarrow> [] | Some cs \<Rightarrow> cs)"

definition handleZodNumberCheck :: "jsobj \<Rightarrow> zodCheck \<Rightarrow> jsobj" where
  "handleZodNumberCheck schema check =
     (let schema1 = (if kind check = ''int''
                     then AList.update ''type'' (JStr ''integer'') schema else schema);
          schema2 = (if kind check = ''min''
                     then AList.update ''minimum'' (cvalue check) schema1 else schema1)
      in if kind check = ''max''
         then AList.update ''maximum'' (cvalue check) schema2 else schema2)"

definition handleZodNumber :: "zodCheck list option \<Rightarrow> jsobj" where
  "handleZodNumber chks =
     foldl handleZodNumberCheck [(''type'', JStr ''number'')]
       (case chks of None \<Rightarrow> [] | Some cs \<Rightarrow> cs)"

text \<open>\<open>{...schema, ...extraProps}\<close>: the properties of \<open>extraProps\<close> are set in turn.\<close>

definition spread :: "jsobj \<Rightarrow> jsobj \<Rightarrow> jsobj" where
  "spread schema extraProps = foldl (\<lambda>obj p. AList.update (fst p) (snd p) obj) schema extraProps"

definition arrayBounds :: "js_number option \<Rightarrow> js_number option \<Rightarrow> jsobj \<Rightarrow> jsobj" where
  "arrayBounds maxLen minLen schema =
     (let schema1 = (case maxLen of None \<Rightarrow> schema
                     | Some v \<Rightarrow> AList.update ''maxItems'' (JNum v) schema)
      in case minLen of None \<Rightarrow> schema1
         | Some v \<Rightarrow> AList.update ''minItems'' (JNum v) schema1)"

definition withDescription :: "string option \<Rightarrow> jsobj \<Rightarrow> jsobj" where
  "withDescription description schema =
     (case description of
        None \<Rightarrow> schema
      | Some d \<Rightarrow> if d \<noteq> [] then AList.update ''description'' (JStr d) schema else schema)"

text \<open>
  \<open>result[key] = value\<close> on a plain object, for a \<open>value\<close> that is an object: the key
  \<open>__proto__\<close> is the accessor of \<open>Object.prototype\<close>, so the assignment replaces the
  prototype of \<open>result\<close> and creates no property; any other key is an ordinary property.
\<close>

definition assignProperty :: "string \<Rightarrow> jsval \<Rightarrow> jsobj \<Rightarrow> jsobj" where
  "assignProperty key v result =
     (if key = ''__proto__'' then result else AList.update key v result)"

function (sequential) zodToJsonSchema :: "(string \<Rightarrow> string) \<Rightarrow> zodType \<Rightarrow> js_fault + jsobj"
  and handleZodArray ::
    "(string \<Rightarrow> string) \<Rightarrow> zodType option \<Rightarrow> js_number option \<Rightarrow> js_number option
       \<Rightarrow> js_fault + jsobj"
  and handleZodWrapper :: "(string \<Rightarrow> string) \<Rightarrow> zodType option \<Rightarrow> jsobj \<Rightarrow> js_fault + jsobj"
  and serializeSchemaInto :: "(string \<Rightarrow> string) \<Rightarrow> jsobj \<Rightarrow> zodSchema \<Rightarrow> js_fault + jsobj"
  and mapZodToJsonSchema :: "(string \<Rightarrow> string) \<Rightarrow> zodType list \<Rightarrow> js_fault + jsval list"
where
  "zodToJsonSchema low NoDef = Inr [(''type'', JStr ''unknown'')]"
| "zodToJsonSchema low (ZodDef tn description chks vals inner shp ty dflt opts minLen maxLen) =
     (case
        (if tn = ''ZodString'' then Inr (handleZodString chks)
         else if tn = ''ZodNumber'' then Inr (handleZodNumber chks)
         else if tn = ''ZodBoolean'' then Inr [(''type'', JStr ''boolean'')]
         else if tn = ''ZodArray'' then handleZodArray low ty maxLen minLen
         else if tn = ''ZodObject'' then
           (case shp of
              None \<Rightarrow> Inl TypeError
            | Some sh \<Rightarrow>
                (case serializeSchemaInto low [] sh of
                   Inl e \<Rightarrow> Inl e
                 | Inr props \<Rightarrow> Inr [(''type'', JStr ''object''), (''properties'', JObj props)]))
         else if tn = ''ZodOptional'' then handleZodWrapper low inner [(''optional'', JBool True)]
         else if tn = ''ZodDefault'' then
           (case dflt of
              None \<Rightarrow> Inl TypeError
            | Some v \<Rightarrow> handleZodWrapper low inner [(''default'', v)])
         else if tn = ''ZodEnum'' then
           Inr [(''type'', JStr ''string''),
                (''enum'', (case vals of None \<Rightarrow> JUndefined | Some vs \<Rightarrow> JArr vs))]
         else if tn = ''ZodUnion'' then
           (case opts of
              None \<Rightarrow> Inl TypeError
            | Some os \<Rightarrow>
                (case mapZodToJsonSchema low os of
                   Inl e \<Rightarrow> Inl e
                 | Inr alts \<Rightarrow> Inr [(''oneOf'', JArr alts)]))
         else if tn = ''ZodNullable'' then handleZodWrapper low inner [(''nullable'', JBool True)]
         else Inr [(''type'', JStr (toLowerCase low (replace_first tn ''Zod'')))])
      of
        Inl e \<Rightarrow> Inl e
      | Inr schema \<Rightarrow> Inr (withDescription description schema))"
| "handleZodArray low None maxLen minLen = Inl TypeError"
| "handleZodArray low (Some t) maxLen minLen =
     (case zodToJsonSchema low t of
        Inl e \<Rightarrow> Inl e
      | Inr items \<Rightarrow>
          Inr (arrayBounds maxLen minLen [(''type'', JStr ''array''), (''items'', JObj items)]))"
| "handleZodWrapper low None extraProps = Inl TypeError"
| "handleZodWrapper low (Some t) extraProps =
     (case zodToJsonSchema low t of
        Inl e \<Rightarrow> Inl e
      | Inr schema \<Rightarrow> Inr (spread schema extraProps))"
| "serializeSchemaInto low result [] = Inr result"
| "serializeSchemaInto low result ((key, zt) # rest) =
     (case zodToJsonSchema low zt of
        Inl e \<Rightarrow> Inl e
      | Inr v \<Rightarrow> serializeSchemaInto low (assignProperty key (JObj v) result) rest)"
| "mapZodToJsonSchema low [] = Inr []"
| "mapZodToJsonSchema low (opt # rest) =
     (case zodToJsonSchema low opt of
        Inl e \<Rightarrow> Inl e
      | Inr v \<Rightarrow>
          (case mapZodToJsonSchema low rest of
             Inl e \<Rightarrow> Inl e
           | Inr vs \<Rightarrow> Inr (JObj v # vs)))"
  by pat_completeness auto

termination
  by (relation "measure (\<lambda>x. case x of
        Inl (Inl (_, z)) \<Rightarrow> 2 * size z
      | Inl (Inr (_, ty, _, _)) \<Rightarrow> 2 * size_option size ty + 1
      | Inr (Inl (_, inner, _)) \<Rightarrow> 2 * size_option size inner + 1
      | Inr (Inr (Inl (_, _, entries))) \<Rightarrow>
          2 * size_list (size_prod (\<lambda>_. 0) size) entries + 1
      | Inr (Inr (Inr (_, zs))) \<Rightarrow> 2 * size_list size zs + 1)")
    simp_all

definition serializeSchema :: "(string \<Rightarrow> string) \<Rightarrow> zodSchema \<Rightarrow> js_fault + jsobj" where
  "serializeSchema low schema = serializeSchemaInto low [] schema"

section \<open>The logger\<close>

text \<open>
  \<open>Logger.log\<close> of utils/logger.ts returns at once for a level below the logger's. Otherwise
  it prints \<open>JSON.stringify\<close> of the entry (format \<open>json\<close>: timestamp, level and message,
  which are strings, and the properties of the metadata) or of the metadata (format
  \<open>pretty\<close>). What is printed is not part of the model; whether the call returns (\<open>None\<close>)
  or throws is.
\<close>

datatype logLevel = Debug | Info | Warn | Error

datatype logFormat = Json | Pretty

record logger =
  log_level :: logLevel
  log_format :: logFormat

fun levelIndex :: "logLevel \<Rightarrow> nat" where
  "levelIndex Debug = 0"
| "levelIndex Info = 1"
| "levelIndex Warn = 2"
| "levelIndex Error = 3"

definition shouldLog :: "logger \<Rightarrow> logLevel \<Rightarrow> bool" where
  "shouldLog lg lvl = (levelIndex lvl \<ge> levelIndex (log_level lg))"

definition logger_log :: "logger \<Rightarrow> logLevel \<Rightarrow> string \<Rightarrow> jsobj \<Rightarrow> js_fault option" where
  "logger_log lg lvl message metadata =
     (if \<not> shouldLog lg lvl then None
      else case log_format lg of
             Json \<Rightarrow> if stringifiable_props metadata then None else Some TypeError
           | Pretty \<Rightarrow> if stringifiable (JObj metadata) then None else Some TypeError)"

definition logger_info :: "logger \<Rightarrow> string \<Rightarrow> jsobj \<Rightarrow> js_fault option" where
  "logger_info lg message metadata = logger_log lg Info message metadata"

definition logger_error :: "logger \<Rightarrow> string \<Rightarrow> jsobj \<Rightarrow> js_fault option" where
  "logger_error lg message metadata = logger_log lg Error message metadata"

section \<open>The dispatch facade\<close>

text \<open>
  The callbacks of \<open>get_tool_schema\<close> and \<open>execute_tool\<close> in \<open>registerMetaTools\<close>. They are
  \<open>async\<close>: the promise a call returns is fulfilled with a result (\<open>Returned\<close>), rejected
  (\<open>Raised\<close>), or never settled (\<open>Pending\<close>). \<open>JSON.stringify(x, null, 2)\<close> is a parameter
  of \<open>get_tool_schema\<close>.
\<close>

datatype facade_outcome = Returned tool_result | Raised js_fault | Pending

definition quote :: string where
  "quote = [CHR 0x27]"

definition nl :: string where
  "nl = [CHR 0x0A]"

definition notFoundText :: "string \<Rightarrow> string" where
  "notFoundText toolName =
     ''Tool '' @ quote @ toolName @ quote @
     '' not found. Use search_tools or list_tools to find valid tool names.''"

definition get_tool_schema ::
  "logger \<Rightarrow> (string \<Rightarrow> string) \<Rightarrow> (jsval \<Rightarrow> string) \<Rightarrow> toolRegistry \<Rightarrow> string
     \<Rightarrow> facade_outcome" where
  "get_tool_schema lg low stringify registry toolName =
     (case getToolSchema registry toolName of
        None \<Rightarrow>
          Returned \<lparr>content = [TextBlock (notFoundText toolName)],
                    structuredContent = None,
                    isError = Some True\<rparr>
      | Some schema \<Rightarrow>
          (case logger_info lg ''Got tool schema'' [(''toolName'', JStr toolName)] of
             Some e \<Rightarrow> Raised e
           | None \<Rightarrow>
          (case serializeSchema low (inputSchema schema) of
             Inl e \<Rightarrow> Raised e
           | Inr serializedInput \<Rightarrow>
               (case serializeSchema low (outputSchema schema) of
                  Inl e \<Rightarrow> Raised e
                | Inr serializedOutput \<Rightarrow>
                    Returned
                      \<lparr>content =
                         [TextBlock
                            (''## '' @ info_title schema @ nl @ nl @
                             info_description schema @ nl @ nl @
                             ''**Category:** '' @ info_category schema @ nl @ nl @
                             ''**Input Parameters:**'' @ nl @ ''```json'' @ nl @
                             stringify (JObj serializedInput) @ nl @ ''```'' @ nl @ nl @
                             ''**Output:**'' @ nl @ ''```json'' @ nl @
                             stringify (JObj serializedOutput) @ nl @ ''```'')],
                       structuredContent =
                         Some [(''name'', JStr (info_name schema)),
                               (''title'', JStr (info_title schema)),
                               (''description'', JStr (info_description schema)),
                               (''category'', JStr (info_category schema)),
                               (''inputSchema'', JObj serializedInput),
                               (''outputSchema'', JObj serializedOutput)],
                       isError = None\<rparr>))))"

text \<open>
  The \<open>catch\<close> block of \<open>execute_tool\<close>. It reads \<open>error.message\<close> three times, the first
  time for the metadata of \<open>logger.error\<close>; on \<open>null\<close> or \<open>undefined\<close> that read throws, and
  nothing encloses the block. A message that is \<open>undefined\<close> prints as \<open>undefined\<close> in the
  template literal.
\<close>

definition catchBlock :: "logger \<Rightarrow> string \<Rightarrow> thrown \<Rightarrow> facade_outcome" where
  "catchBlock lg toolName error =
     (case error of
        Nullish \<Rightarrow> Raised TypeError
      | ErrorWithMessage message \<Rightarrow>
          (case logger_error lg ''Tool execution failed''
                  [(''toolName'', JStr toolName), (''error'', JStr message)] of
             Some e \<Rightarrow> Raised e
           | None \<Rightarrow>
               Returned \<lparr>content = [TextBlock (''Tool execution failed: '' @ message)],
                         structuredContent =
                           Some [(''success'', JBool False), (''error'', JStr message)],
                         isError = Some True\<rparr>)
      | ValueWithoutMessage \<Rightarrow>
          (case logger_error lg ''Tool execution failed''
                  [(''toolName'', JStr toolName), (''error'', JUndefined)] of
             Some e \<Rightarrow> Raised e
           | None \<Rightarrow>
               Returned \<lparr>content = [TextBlock ''Tool execution failed: undefined''],
                         structuredContent =
                           Some [(''success'', JBool False), (''error'', JUndefined)],
                         isError = Some True\<rparr>))"

text \<open>
  \<open>execute_tool\<close>. The call of \<open>logger.info\<close> with the tool name and the parameter bag comes
  before the \<open>try\<close>: when it throws, the handler is not called.
\<close>

definition execute_tool ::
  "logger \<Rightarrow> toolRegistry \<Rightarrow> string \<Rightarrow> jsobj \<Rightarrow> facade_outcome" where
  "execute_tool lg registry toolName params =
     (case getHandler registry toolName of
        None \<Rightarrow>
          Returned \<lparr>content = [TextBlock (notFoundText toolName)],
                    structuredContent =
                      Some [(''success'', JBool False),
                            (''error'', JStr (''Tool '' @ quote @ toolName @ quote @ '' not found''))],
                    isError = Some True\<rparr>
      | Some h \<Rightarrow>
          (case logger_info lg ''Executing tool''
                  [(''toolName'', JStr toolName), (''params'', JObj params)] of
             Some e \<Rightarrow> Raised e
           | None \<Rightarrow>
               (case h params of
                  Resolves result \<Rightarrow> Returned result
                | ThrowsSync error \<Rightarrow> catchBlock lg toolName error
                | Rejects error \<Rightarrow> catchBlock lg toolName error
                | NeverSettles \<Rightarrow> Pending)))"

section \<open>Reachable registry states\<close>

text \<open>
  The tables are private, and \<open>registerTool\<close> is the only method that writes to them, so
  the states a registry can be in are those that a sequence of \<open>registerTool\<close> calls
  produces from a freshly constructed one.
\<close>

datatype registration =
  Registration
    (reg_name: string)
    (reg_category: string)
    (reg_title: string)
    (reg_description: string)
    (reg_inputSchema: zodSchema)
    (reg_outputSchema: zodSchema)
    (reg_handler: toolHandler)

definition register :: "toolRegistry \<Rightarrow> registration \<Rightarrow> toolRegistry" where
  "register r c =
     registerTool (reg_name c) (reg_category c) (reg_title c) (reg_description c)
       (reg_inputSchema c) (reg_outputSchema c) (reg_handler c) r"

definition registry_after :: "registration list \<Rightarrow> toolRegistry" where
  "registry_after cs = foldl register new_registry cs"

definition categoryNames :: "string list" where
  "categoryNames = map fst categoryDefs"

text \<open>The entry that \<open>registerTool\<close> stores for a registration.\<close>

definition entry_of :: "registration \<Rightarrow> registeredTool" where
  "entry_of c =
     \<lparr>info = \<lparr>info_name = reg_name c, info_title = reg_title c,
               info_description = reg_description c, info_category = reg_category c,
               inputSchema = reg_inputSchema c, outputSchema = reg_outputSchema c\<rparr>,
      handler = reg_handler c\<rparr>"

text \<open>The names registered under a category, in the order of the calls.\<close>

definition registered_under :: "registration list \<Rightarrow> string \<Rightarrow> string list" where
  "registered_under cs cat = map reg_name (filter (\<lambda>c. reg_category c = cat) cs)"

text \<open>The category record of a predeclared category after a sequence of registrations.\<close>

definition category_record :: "registration list \<Rightarrow> string \<Rightarrow> categoryInfo" where
  "category_record cs cat =
     \<lparr>cat_name = cat, cat_description = the (map_of categoryDefs cat),
      toolCount = int (length (registered_under cs cat))\<rparr>"

text \<open>What the two category tables hold for a category name.\<close>

definition categoryToolCount :: "toolRegistry \<Rightarrow> string \<Rightarrow> int option" where
  "categoryToolCount r cat = map_option toolCount (map_of (categories r) cat)"

definition categoryToolNames :: "toolRegistry \<Rightarrow> string \<Rightarrow> string list option" where
  "categoryToolNames r cat = map_of (toolsByCategory r) cat"

text \<open>The entries of the name table whose category is \<open>cat\<close>.\<close>

definition categoryEntries :: "toolRegistry \<Rightarrow> string \<Rightarrow> (string \<times> registeredTool) list" where
  "categoryEntries r cat = filter (\<lambda>e. info_category (info (snd e)) = cat) (tools r)"

text \<open>The registration that a name stands for: the latest one made under it.\<close>

definition registration_of :: "registration list \<Rightarrow> string \<Rightarrow> registration option" where
  "registration_of cs name = find (\<lambda>c. reg_name c = name) (rev cs)"









text \<open>
  For the serializer: the checks of a definition (\<open>def.checks || []\<close>), the value of the
  last check of a kind, the object a schema lowers to, and the type names that the
  \<open>switch\<close> of \<open>zodToJsonSchema\<close> has a \<open>case\<close> for.
\<close>

definition checksOf :: "zodCheck list option \<Rightarrow> zodCheck list" where
  "checksOf chks = (case chks of None \<Rightarrow> [] | Some cs \<Rightarrow> cs)"

definition lastCheck :: "string \<Rightarrow> zodCheck list option \<Rightarrow> jsval option" where
  "lastCheck k chks =
     (let cs = filter (\<lambda>c. kind c = k) (checksOf chks)
      in if cs = [] then None else Some (cvalue (last cs)))"

definition lowered :: "(string \<Rightarrow> string) \<Rightarrow> zodType \<Rightarrow> jsobj" where
  "lowered low z = (case zodToJsonSchema low z of Inl e \<Rightarrow> [] | Inr s \<Rightarrow> s)"

definition recognizedTypeNames :: "string list" where
  "recognizedTypeNames =
     [''ZodString'', ''ZodNumber'', ''ZodBoolean'', ''ZodArray'', ''ZodObject'', ''ZodOptional'',
      ''ZodDefault'', ''ZodEnum'', ''ZodUnion'', ''ZodNullable'']"

text \<open>
  Sample schemas: \<open>z.array(z.string()).min(1).max(5)\<close>, the \<open>limit\<close> parameter of
  \<open>search_tools\<close>, \<open>z.number().int().min(1).max(50).default(20).describe(...)\<close>, with its
  inner number, and a kind the walker has no case for.
\<close>

definition tagsSchema :: zodType where
  "tagsSchema =
     ZodDef ''ZodArray'' None None None None None
       (Some (ZodDef ''ZodString'' None (Some []) None None None None None None None None))
       None None (Some (Finite 1)) (Some (Finite 5))"

definition boundedIntSchema :: zodType where
  "boundedIntSchema =
     ZodDef ''ZodNumber'' None
       (Some [ZodCheck ''int'' JUndefined, ZodCheck ''min'' (JNum (Finite 1)),
              ZodCheck ''max'' (JNum (Finite 50))])
       None None None None None None None None"

definition limitSchema :: zodType where
  "limitSchema =
     ZodDef ''ZodDefault'' (Some ''Maximum results to return'') None None (Some boundedIntSchema)
       None None (Some (JNum (Finite 20))) None None None"

definition literalSchema :: zodType where
  "literalSchema = ZodDef ''ZodLiteral'' None None None None None None None None None None"

text \<open>
  Samples. A lowering for strings outside ASCII that leaves them alone; the logger that
  \<open>new Logger()\<close> constructs; the handler and the registrations of tests/registry.test.ts.
\<close>

definition keepNonAscii :: "string \<Rightarrow> string" where
  "keepNonAscii s = s"

definition defaultLogger :: logger where
  "defaultLogger = \<lparr>log_level = Info, log_format = Json\<rparr>"

definition okHandler :: toolHandler where
  "okHandler params =
     Resolves \<lparr>content = [TextBlock ''ok''], structuredContent = None, isError = None\<rparr>"

definition sendMessageCall :: registration where
  "sendMessageCall =
     Registration ''send_message'' ''messaging'' ''Send Message'' ''Send a message to Discord''
       [] [] okHandler"

definition banMemberCall :: registration where
  "banMemberCall =
     Registration ''ban_member'' ''moderation'' ''Ban Member'' ''Ban a user from the server''
       [] [] okHandler"

text \<open>
  Sample handlers: one that rejects with \<open>undefined\<close> (\<open>async () => { throw undefined }\<close>),
  one that throws an \<open>Error\<close>, and one for \<open>send_message\<close> that resolves to a success or
  to a business-level failure. \<open>faultResult\<close> is the result the \<open>catch\<close> block of
  \<open>execute_tool\<close> builds for a message.
\<close>

definition rejectingHandler :: toolHandler where
  "rejectingHandler params = Rejects Nullish"

definition throwingHandler :: toolHandler where
  "throwingHandler params = ThrowsSync (ErrorWithMessage ''Client user not available'')"

definition messageSent :: tool_result where
  "messageSent =
     \<lparr>content = [TextBlock ''sent''],
      structuredContent = Some [(''success'', JBool True), (''messageId'', JStr ''msg-1'')],
      isError = None\<rparr>"

definition channelNotFound :: tool_result where
  "channelNotFound =
     \<lparr>content = [TextBlock ''Channel not found: bad''],
      structuredContent =
        Some [(''success'', JBool False), (''error'', JStr ''Channel not found: bad'')],
      isError = Some True\<rparr>"

definition sendMessageHandler :: toolHandler where
  "sendMessageHandler params =
     (if map_of params ''channelId'' = Some (JStr ''bad'')
      then Resolves channelNotFound else Resolves messageSent)"

definition faultResult :: "string \<Rightarrow> tool_result" where
  "faultResult message =
     \<lparr>content = [TextBlock (''Tool execution failed: '' @ message)],
      structuredContent = Some [(''success'', JBool False), (''error'', JStr message)],
      isError = Some True\<rparr>"

section \<open>The tables of a reachable registry\<close>

lemma tools_new: "tools new_registry = []"
  by (simp add: new_registry_def initializeCategories_def initCategory_def categoryDefs_def)

lemma categories_new:
  "categories new_registry =
     map (\<lambda>p. (fst p, \<lparr>cat_name = fst p, cat_description = snd p, toolCount = 0\<rparr>)) categoryDefs"
  by (simp add: new_registry_def initializeCategories_def initCategory_def categoryDefs_def)

lemma toolsByCategory_new:
  "toolsByCategory new_registry = map (\<lambda>p. (fst p, [])) categoryDefs"
  by (simp add: new_registry_def initializeCategories_def initCategory_def categoryDefs_def)

lemma map_of_keyed:
  "map_of (map (\<lambda>p. (fst p, f p)) xs) k = map_option (\<lambda>v. f (k, v)) (map_of xs k)"
  by (induction xs) auto

lemma map_of_categoryDefs_None:
  "map_of categoryDefs cat = None \<longleftrightarrow> cat \<notin> set categoryNames"
  by (simp add: categoryNames_def map_of_eq_None_iff)

lemma map_of_categoryDefs_Some:
  "cat \<in> set categoryNames \<Longrightarrow> map_of categoryDefs cat = Some (the (map_of categoryDefs cat))"
  using map_of_categoryDefs_None [of cat] by (cases "map_of categoryDefs cat") auto

lemma registry_after_Nil: "registry_after [] = new_registry"
  by (simp add: registry_after_def)

lemma registry_after_snoc: "registry_after (cs @ [c]) = register (registry_after cs) c"
  by (simp add: registry_after_def)

lemma tools_register:
  "tools (register r c) = AList.update (reg_name c) (entry_of c) (tools r)"
  by (simp add: register_def registerTool_def entry_of_def Let_def split: option.splits)

lemma toolsByCategory_register:
  "toolsByCategory (register r c) =
     (case map_of (toolsByCategory r) (reg_category c) of
        None \<Rightarrow> toolsByCategory r
      | Some ns \<Rightarrow> AList.update (reg_category c) (ns @ [reg_name c]) (toolsByCategory r))"
  by (simp add: register_def registerTool_def Let_def split: option.splits)

lemma categories_register:
  "categories (register r c) =
     (case map_of (toolsByCategory r) (reg_category c) of
        None \<Rightarrow> categories r
      | Some ns \<Rightarrow>
          (case map_of (categories r) (reg_category c) of
             None \<Rightarrow> categories r
           | Some ci \<Rightarrow>
               AList.update (reg_category c) (ci\<lparr>toolCount := toolCount ci + 1\<rparr>) (categories r)))"
  by (simp add: register_def registerTool_def Let_def split: option.splits)

lemma registered_under_snoc:
  "registered_under (cs @ [c]) cat =
     (if reg_category c = cat then registered_under cs cat @ [reg_name c]
      else registered_under cs cat)"
  by (simp add: registered_under_def)

lemma toolsByCategory_after:
  "map_of (toolsByCategory (registry_after cs)) cat =
     (if cat \<in> set categoryNames then Some (registered_under cs cat) else None)"
proof (induction cs arbitrary: cat rule: rev_induct)
  case Nil
  show ?case
    using map_of_categoryDefs_Some [of cat] map_of_categoryDefs_None [of cat]
    by (cases "cat \<in> set categoryNames")
      (simp_all add: registry_after_Nil toolsByCategory_new map_of_keyed registered_under_def)
next
  case (snoc c cs)
  show ?case
    by (simp add: registry_after_snoc toolsByCategory_register snoc.IH update_conv'
          registered_under_snoc)
qed

lemma categories_after:
  "map_of (categories (registry_after cs)) cat =
     (if cat \<in> set categoryNames then Some (category_record cs cat) else None)"
proof (induction cs arbitrary: cat rule: rev_induct)
  case Nil
  show ?case
    using map_of_categoryDefs_Some [of cat] map_of_categoryDefs_None [of cat]
    by (cases "cat \<in> set categoryNames")
      (simp_all add: registry_after_Nil categories_new map_of_keyed registered_under_def
         category_record_def)
next
  case (snoc c cs)
  show ?case
    by (simp add: registry_after_snoc categories_register toolsByCategory_after snoc.IH
          update_conv' registered_under_snoc category_record_def)
qed

lemma category_keys_after: "map fst (categories (registry_after cs)) = categoryNames"
proof (induction cs rule: rev_induct)
  case Nil
  show ?case
    by (simp add: registry_after_Nil categories_new categoryNames_def comp_def)
next
  case (snoc c cs)
  have "reg_category c \<in> set categoryNames \<Longrightarrow>
        reg_category c \<in> fst ` set (categories (registry_after cs))"
    using snoc.IH by (metis set_map)
  then show ?case
    by (simp add: registry_after_snoc categories_register toolsByCategory_after
          categories_after update_keys snoc.IH)
qed

lemma tools_after:
  "map_of (tools (registry_after cs)) n =
     map_of (rev (map (\<lambda>c. (reg_name c, entry_of c)) cs)) n"
proof (induction cs rule: rev_induct)
  case Nil
  show ?case by (simp add: registry_after_Nil tools_new)
next
  case (snoc c cs)
  show ?case
    by (simp add: registry_after_snoc tools_register update_conv' snoc.IH)
qed

lemma distinct_tools_after: "distinct (map fst (tools (registry_after cs)))"
proof (induction cs rule: rev_induct)
  case Nil
  show ?case by (simp add: registry_after_Nil tools_new)
next
  case (snoc c cs)
  then show ?case
    by (simp add: registry_after_snoc tools_register distinct_update)
qed


lemma distinct_categoryNames: "distinct categoryNames"
  by (simp add: categoryNames_def categoryDefs_def)

lemma alist_by_keys:
  "distinct (map fst al) \<Longrightarrow> al = map (\<lambda>k. (k, the (map_of al k))) (map fst al)"
proof (induction al)
  case Nil
  show ?case by simp
next
  case (Cons p al)
  have "map (\<lambda>k. (k, the (map_of (p # al) k))) (map fst al)
          = map (\<lambda>k. (k, the (map_of al k))) (map fst al)"
    using Cons.prems by (auto simp: rev_image_eqI)
  with Cons show ?case by (cases p) simp
qed

lemma categories_list:
  "categories (registry_after cs) = map (\<lambda>cat. (cat, category_record cs cat)) categoryNames"
proof -
  have d: "distinct (map fst (categories (registry_after cs)))"
    by (simp add: category_keys_after distinct_categoryNames)
  have "categories (registry_after cs)
          = map (\<lambda>k. (k, the (map_of (categories (registry_after cs)) k))) categoryNames"
    using alist_by_keys [OF d] by (simp add: category_keys_after)
  also have "\<dots> = map (\<lambda>cat. (cat, category_record cs cat)) categoryNames"
    by (simp add: categories_after)
  finally show ?thesis .
qed

lemma listCategories_after:
  "listCategories (registry_after cs) =
     map (category_record cs) (filter (\<lambda>cat. registered_under cs cat \<noteq> []) categoryNames)"
  by (simp add: listCategories_def categories_list comp_def filter_map category_record_def)

lemma registered_under_nonempty:
  "registered_under cs cat \<noteq> [] \<longleftrightarrow> (\<exists>c \<in> set cs. reg_category c = cat)"
  by (auto simp: registered_under_def filter_empty_conv)

lemma listed_names:
  "cat_name ` set (listCategories (registry_after cs)) =
     {cat \<in> set categoryNames. \<exists>c \<in> set cs. reg_category c = cat}"
  by (auto simp: listCategories_after registered_under_nonempty category_record_def image_iff)

lemma categoryNames_lowercase: "cat \<in> set categoryNames \<Longrightarrow> toLowerCase low cat = cat"
  by (auto simp: categoryNames_def categoryDefs_def toLowerCase_def isAscii_def
        toLowerCaseChar_def)

lemma registerTool_after:
  "registerTool n c t d inS outS h (registry_after cs)
     = registry_after (cs @ [Registration n c t d inS outS h])"
  by (simp add: registry_after_snoc register_def)

lemma getToolSchema_after:
  "getToolSchema (registry_after cs) n =
     map_option info (map_of (rev (map (\<lambda>c. (reg_name c, entry_of c)) cs)) n)"
  by (simp add: getToolSchema_def tools_after)

lemma getHandler_after:
  "getHandler (registry_after cs) n =
     map_option handler (map_of (rev (map (\<lambda>c. (reg_name c, entry_of c)) cs)) n)"
  by (simp add: getHandler_def tools_after)

lemma listTools_names:
  "map summary_name (listTools low r cat) =
     (case map_of (toolsByCategory r) (toLowerCase low cat) of None \<Rightarrow> [] | Some ns \<Rightarrow> ns)"
  by (simp add: listTools_def comp_def split: option.splits)

lemma listTools_names_after:
  "map summary_name (listTools low (registry_after cs) cat) =
     (if toLowerCase low cat \<in> set categoryNames then registered_under cs (toLowerCase low cat) else [])"
  by (simp add: listTools_names toolsByCategory_after)

lemma tools_entry_origin:
  assumes "(m, e) \<in> set (tools (registry_after cs))"
  shows "\<exists>c \<in> set cs. reg_name c = m \<and> e = entry_of c"
proof -
  have "map_of (tools (registry_after cs)) m = Some e"
    using assms distinct_tools_after by simp
  then have "map_of (rev (map (\<lambda>c. (reg_name c, entry_of c)) cs)) m = Some e"
    by (simp add: tools_after)
  then have "(m, e) \<in> set (rev (map (\<lambda>c. (reg_name c, entry_of c)) cs))"
    by (rule map_of_SomeD)
  then show ?thesis by auto
qed

lemma categoryEntries_names:
  "set (map fst (categoryEntries (registry_after cs) cat)) \<subseteq> set (registered_under cs cat)"
proof
  fix m
  assume "m \<in> set (map fst (categoryEntries (registry_after cs) cat))"
  then obtain e where e: "(m, e) \<in> set (tools (registry_after cs))"
      and cat: "info_category (info e) = cat"
    by (auto simp: categoryEntries_def)
  from tools_entry_origin [OF e] obtain c where "c \<in> set cs" "reg_name c = m" "e = entry_of c"
    by blast
  with cat show "m \<in> set (registered_under cs cat)"
    by (auto simp: registered_under_def entry_of_def)
qed

lemma categoryEntries_bound:
  "length (categoryEntries (registry_after cs) cat) \<le> card (set (registered_under cs cat))"
proof -
  have "distinct (map fst (categoryEntries (registry_after cs) cat))"
    unfolding categoryEntries_def using distinct_tools_after [of cs]
    by (simp add: distinct_map_filter)
  then have "length (categoryEntries (registry_after cs) cat)
               = card (set (map fst (categoryEntries (registry_after cs) cat)))"
    by (metis distinct_card length_map)
  also have "\<dots> \<le> card (set (registered_under cs cat))"
    by (rule card_mono [OF _ categoryEntries_names]) simp
  finally show ?thesis .
qed

section \<open>Category visibility and counts\<close>

text \<open>
  C5. In every reachable registry, a predeclared category is in the output of
  \<open>listCategories\<close> exactly when its \<open>toolCount\<close> is positive, and exactly when some
  \<open>registerTool\<close> call named that category; a name that is not predeclared is never in the
  output.
\<close>

theorem C5_category_visibility:
  "(cat \<in> set categoryNames \<longrightarrow>
      ((cat \<in> cat_name ` set (listCategories (registry_after cs)))
         = (\<exists>k. categoryToolCount (registry_after cs) cat = Some k \<and> k > 0)) \<and>
      ((cat \<in> cat_name ` set (listCategories (registry_after cs)))
         = (\<exists>c \<in> set cs. reg_category c = cat))) \<and>
   (cat \<notin> set categoryNames \<longrightarrow>
      cat \<notin> cat_name ` set (listCategories (registry_after cs)))"
  by (auto simp: listed_names categoryToolCount_def categories_after category_record_def
        registered_under_nonempty [symmetric])

theorem C5_category_visibility_witness:
  "''messaging'' \<in> set categoryNames \<and>
   ''messaging'' \<in> cat_name ` set (listCategories (registry_after [sendMessageCall])) \<and>
   categoryToolCount (registry_after [sendMessageCall]) ''messaging'' = Some 1 \<and>
   ''stickers'' \<in> set categoryNames \<and>
   ''stickers'' \<notin> cat_name ` set (listCategories (registry_after [sendMessageCall])) \<and>
   ''custom'' \<notin> set categoryNames \<and>
   ''custom'' \<notin> cat_name ` set (listCategories (registry_after [sendMessageCall]))"
  using C5_category_visibility [of "''messaging''" "[sendMessageCall]"]
    C5_category_visibility [of "''stickers''" "[sendMessageCall]"]
    C5_category_visibility [of "''custom''" "[sendMessageCall]"]
  by (simp add: categoryNames_def categoryDefs_def sendMessageCall_def categoryToolCount_def
        categories_after category_record_def registered_under_def)

text \<open>
  C10. For a predeclared category, the stored \<open>toolCount\<close> is the length of the category's
  tool-name list in every reachable registry: both are zero in a new registry, and a
  \<open>registerTool\<close> call appends one name and adds one to the count, or leaves both as they
  were.
\<close>

theorem C10_toolCount_is_list_length:
  assumes "cat \<in> set categoryNames"
  shows "(\<exists>ns. categoryToolNames (registry_after cs) cat = Some ns \<and>
               categoryToolCount (registry_after cs) cat = Some (int (length ns))) \<and>
         categoryToolNames new_registry cat = Some [] \<and>
         categoryToolCount new_registry cat = Some 0 \<and>
         (let r = registry_after cs; r' = registerTool n c t d inS outS h r
          in (\<exists>ns k. categoryToolNames r cat = Some ns \<and> categoryToolCount r cat = Some k \<and>
                      categoryToolNames r' cat = Some (ns @ [n]) \<and>
                      categoryToolCount r' cat = Some (k + 1)) \<or>
             (categoryToolNames r' cat = categoryToolNames r cat \<and>
              categoryToolCount r' cat = categoryToolCount r cat))"
proof -
  have step: "registerTool n c t d inS outS h (registry_after cs)
                = registry_after (cs @ [Registration n c t d inS outS h])"
    by (simp add: registry_after_snoc register_def)
  have new: "new_registry = registry_after []"
    by (simp add: registry_after_Nil)
  show ?thesis
    unfolding Let_def step new
    using assms
    by (simp add: categoryToolNames_def categoryToolCount_def toolsByCategory_after
          categories_after category_record_def registered_under_snoc)
      (simp add: registered_under_def)
qed


theorem C10_toolCount_is_list_length_witness:
  "''moderation'' \<in> set categoryNames \<and>
   categoryToolNames (registry_after [sendMessageCall, banMemberCall]) ''moderation''
     = Some [''ban_member''] \<and>
   categoryToolCount (registry_after [sendMessageCall, banMemberCall]) ''moderation'' = Some 1"
  using C10_toolCount_is_list_length
    [of "''moderation''" "[sendMessageCall, banMemberCall]" "''x''" "''custom''" "''X''" "''x''"
        "[]" "[]" okHandler]
  by (simp add: categoryNames_def categoryDefs_def sendMessageCall_def banMemberCall_def
        categoryToolNames_def toolsByCategory_after registered_under_def)

section \<open>Registration and listing\<close>

text \<open>
  C6, as amended. After \<open>registerTool\<close> with name \<open>n\<close> and category \<open>cat\<close> on a reachable
  registry, \<open>getToolSchema n\<close> is an entry whose category is \<open>cat\<close>, for every name and
  every category string; \<open>listTools cat\<close> has an entry named \<open>n\<close> when \<open>cat\<close> is one of the
  predeclared category names.
\<close>

theorem C6_registration_round_trip:
  "(\<exists>ti. getToolSchema (registerTool n cat t d inS outS h (registry_after cs)) n = Some ti \<and>
         info_category ti = cat) \<and>
   (cat \<in> set categoryNames \<longrightarrow>
      n \<in> summary_name ` set (listTools low (registerTool n cat t d inS outS h (registry_after cs)) cat))"
proof -
  have "cat \<in> set categoryNames \<Longrightarrow>
        n \<in> set (map summary_name
                    (listTools low (registry_after (cs @ [Registration n cat t d inS outS h])) cat))"
    unfolding listTools_names_after
    by (simp add: categoryNames_lowercase registered_under_snoc)
  then show ?thesis
    by (simp add: registerTool_after getToolSchema_after entry_of_def)
qed

theorem C6_registration_round_trip_witness:
  "''moderation'' \<in> set categoryNames \<and>
   ''ban_member'' \<in> summary_name `
      set (listTools keepNonAscii (registerTool ''ban_member'' ''moderation'' ''Ban Member'' ''Ban a member''
                        [] [] okHandler (registry_after [sendMessageCall])) ''moderation'')"
  using C6_registration_round_trip
    [of "''ban_member''" "''moderation''" "''Ban Member''" "''Ban a member''" "[]" "[]" okHandler
        "[sendMessageCall]"]
  by (simp add: categoryNames_def categoryDefs_def)

text \<open>
  The claim as stated, for every category string, fails: a tool registered under a name
  that is not predeclared is stored in the name table only, and \<open>listTools\<close> of that name
  is empty.
\<close>

theorem C6_unknown_category_counterexample:
  "\<not> (''my_tool'' \<in> summary_name `
         set (listTools keepNonAscii (registerTool ''my_tool'' ''custom'' ''My Tool'' ''A tool'' [] [] okHandler
                           new_registry) ''custom''))"
proof -
  have "map summary_name
          (listTools keepNonAscii (registry_after
              [Registration ''my_tool'' ''custom'' ''My Tool'' ''A tool'' [] [] okHandler]) ''custom'')
        = []"
    unfolding listTools_names_after
    by (simp add: toLowerCase_def isAscii_def toLowerCaseChar_def categoryNames_def
          categoryDefs_def)
  then show ?thesis
    using registerTool_after [of "''my_tool''" "''custom''" "''My Tool''" "''A tool''" "[]" "[]" okHandler "[]"]
    by (simp add: registry_after_Nil)
qed

text \<open>
  C7. When \<open>n\<close> has been registered under a predeclared category \<open>cat\<close>, registering \<open>n\<close>
  under \<open>cat\<close> again replaces the entry and the handler in the name table, appends a
  second occurrence of \<open>n\<close> to the category's list and adds one to its \<open>toolCount\<close>, which
  then exceeds the number of entries of the name table that belong to \<open>cat\<close>.
\<close>

theorem C7_duplicate_registration:
  assumes "cat \<in> set categoryNames"
    and "c \<in> set cs" and "reg_name c = n" and "reg_category c = cat"
  shows
    "(let r = registry_after cs; r' = registerTool n cat t d inS outS h r
      in getToolSchema r' n =
           Some \<lparr>info_name = n, info_title = t, info_description = d, info_category = cat,
                 inputSchema = inS, outputSchema = outS\<rparr> \<and>
         getHandler r' n = Some h \<and>
         (\<exists>ns k. categoryToolNames r cat = Some ns \<and> n \<in> set ns \<and>
                 categoryToolNames r' cat = Some (ns @ [n]) \<and>
                 categoryToolCount r cat = Some k \<and>
                 categoryToolCount r' cat = Some (k + 1) \<and>
                 k + 1 > int (length (categoryEntries r' cat))))"
proof -
  let ?cs' = "cs @ [Registration n cat t d inS outS h]"
  have mem: "n \<in> set (registered_under cs cat)"
    using assms by (auto simp: registered_under_def)
  have "length (categoryEntries (registry_after ?cs') cat)
          \<le> card (set (registered_under ?cs' cat))"
    by (rule categoryEntries_bound)
  also have "set (registered_under ?cs' cat) = set (registered_under cs cat)"
    using mem by (auto simp: registered_under_snoc)
  also have "card (set (registered_under cs cat)) \<le> length (registered_under cs cat)"
    by (rule card_length)
  finally have bound: "length (categoryEntries (registry_after ?cs') cat)
                         \<le> length (registered_under cs cat)" .
  show ?thesis
    unfolding Let_def registerTool_after
    using assms(1) mem bound
    by (simp add: getToolSchema_after getHandler_after entry_of_def categoryToolNames_def
          categoryToolCount_def toolsByCategory_after categories_after category_record_def
          registered_under_snoc)
qed

theorem C7_duplicate_registration_witness:
  "''moderation'' \<in> set categoryNames \<and> banMemberCall \<in> set [sendMessageCall, banMemberCall] \<and>
   reg_name banMemberCall = ''ban_member'' \<and> reg_category banMemberCall = ''moderation'' \<and>
   categoryToolNames
     (registerTool ''ban_member'' ''moderation'' ''Ban'' ''Ban again'' [] [] okHandler
        (registry_after [sendMessageCall, banMemberCall])) ''moderation''
     = Some [''ban_member'', ''ban_member''] \<and>
   categoryToolCount
     (registerTool ''ban_member'' ''moderation'' ''Ban'' ''Ban again'' [] [] okHandler
        (registry_after [sendMessageCall, banMemberCall])) ''moderation'' = Some 2 \<and>
   map_option info_description
     (getToolSchema
        (registerTool ''ban_member'' ''moderation'' ''Ban'' ''Ban again'' [] [] okHandler
          (registry_after [sendMessageCall, banMemberCall])) ''ban_member'') = Some ''Ban again''"
  using C7_duplicate_registration
    [of "''moderation''" banMemberCall "[sendMessageCall, banMemberCall]" "''ban_member''"
               "''Ban''" "''Ban again''" "[]" "[]" okHandler]
  by (simp add: categoryNames_def categoryDefs_def sendMessageCall_def banMemberCall_def
        categoryToolNames_def categoryToolCount_def toolsByCategory_after categories_after
        category_record_def registered_under_def Let_def)


text \<open>
  C8. \<open>listTools\<close> depends on its argument only through the lowercase form, so every case
  variant of a name gives the same list; a name whose lowercase form is not a key of the
  category index gives the empty list; and once \<open>ban_member\<close> has been registered under
  \<open>moderation\<close>, \<open>listTools\<close> of \<open>MODERATION\<close> has an entry named \<open>ban_member\<close>.
\<close>

theorem C8_listTools_case_insensitive:
  "(toLowerCase low c = toLowerCase low c' \<longrightarrow> listTools low r c = listTools low r c') \<and>
   listTools low r ''MODERATION'' = listTools low r ''moderation'' \<and>
   (map_of (toolsByCategory r) (toLowerCase low c) = None \<longrightarrow> listTools low r c = []) \<and>
   ((\<exists>x \<in> set cs. reg_name x = ''ban_member'' \<and> reg_category x = ''moderation'') \<longrightarrow>
      ''ban_member'' \<in> summary_name ` set (listTools low (registry_after cs) ''MODERATION''))"
proof -
  have lw: "toLowerCase low ''MODERATION'' = ''moderation''"
    by (simp add: toLowerCase_def isAscii_def toLowerCaseChar_def)
  have lw': "toLowerCase low ''moderation'' = ''moderation''"
    by (simp add: toLowerCase_def isAscii_def toLowerCaseChar_def)
  have mem: "''moderation'' \<in> set categoryNames"
    by (simp add: categoryNames_def categoryDefs_def)
  have "(\<exists>x \<in> set cs. reg_name x = ''ban_member'' \<and> reg_category x = ''moderation'') \<Longrightarrow>
        ''ban_member'' \<in> set (map summary_name (listTools low (registry_after cs) ''MODERATION''))"
    unfolding listTools_names_after lw using mem
    by (auto simp: registered_under_def image_iff)
  then show ?thesis
    by (simp add: listTools_def lw lw')
qed


theorem C8_listTools_case_insensitive_witness:
  "toLowerCase keepNonAscii ''Moderation'' = toLowerCase keepNonAscii ''mODERATION'' \<and>
   listTools keepNonAscii (registry_after [banMemberCall]) ''Moderation''
     = listTools keepNonAscii (registry_after [banMemberCall]) ''mODERATION'' \<and>
   map_of (toolsByCategory (registry_after [banMemberCall])) (toLowerCase keepNonAscii ''Unknown'') = None \<and>
   listTools keepNonAscii (registry_after [banMemberCall]) ''Unknown'' = [] \<and>
   (\<exists>x \<in> set [banMemberCall]. reg_name x = ''ban_member'' \<and> reg_category x = ''moderation'') \<and>
   ''ban_member'' \<in> summary_name ` set (listTools keepNonAscii (registry_after [banMemberCall]) ''MODERATION'')"
  using C8_listTools_case_insensitive
    [of keepNonAscii "''Moderation''" "''mODERATION''" "registry_after [banMemberCall]"
        "[banMemberCall]"]
    C8_listTools_case_insensitive
    [of keepNonAscii "''Unknown''" "''Unknown''" "registry_after [banMemberCall]"
        "[banMemberCall]"]
  by (simp add: toLowerCase_def isAscii_def toLowerCaseChar_def toolsByCategory_after categoryNames_def
        categoryDefs_def banMemberCall_def)

section \<open>Dispatch\<close>

lemma str_includes_sublist: "str_includes s q \<longleftrightarrow> sublist q s"
  by (induction s) (auto simp: sublist_Cons_right)

lemma notFoundText_guides:
  "str_includes (notFoundText n) ''search_tools'' \<and> str_includes (notFoundText n) ''list_tools''"
proof -
  have "notFoundText n = (''Tool '' @ quote @ n @ quote @ '' not found. Use '') @ ''search_tools''
          @ '' or list_tools to find valid tool names.''"
    by (simp add: notFoundText_def)
  then have a: "sublist ''search_tools'' (notFoundText n)"
    unfolding sublist_def by blast
  have "notFoundText n = (''Tool '' @ quote @ n @ quote @ '' not found. Use search_tools or '')
          @ ''list_tools'' @ '' to find valid tool names.''"
    by (simp add: notFoundText_def)
  then have b: "sublist ''list_tools'' (notFoundText n)"
    unfolding sublist_def by blast
  show ?thesis using a b by (simp add: str_includes_sublist)
qed

text \<open>
  The logger calls of the two callbacks. A tool name and an error message are strings, so
  only the parameter bag of \<open>execute_tool\<close> can make a call throw.
\<close>

lemma logger_info_toolName:
  "logger_info lg message [(''toolName'', JStr n)] = None"
  by (simp add: logger_info_def logger_log_def split: logFormat.splits)

lemma logger_error_message:
  "logger_error lg message [(''toolName'', JStr n), (''error'', JStr m)] = None"
  "logger_error lg message [(''toolName'', JStr n), (''error'', JUndefined)] = None"
  by (simp_all add: logger_error_def logger_log_def split: logFormat.splits)

lemma logger_info_params:
  "logger_info lg message [(''toolName'', JStr n), (''params'', JObj params)] =
     (if stringifiable (JObj params) \<or> \<not> shouldLog lg Info then None else Some TypeError)"
  by (simp add: logger_info_def logger_log_def split: logFormat.splits)

lemma map_of_find:
  "map_of (map (\<lambda>c. (f c, g c)) xs) k = map_option g (find (\<lambda>c. f c = k) xs)"
  by (induction xs) auto

lemma getHandler_registration:
  "getHandler (registry_after cs) n = map_option reg_handler (registration_of cs n)"
  by (simp add: getHandler_after registration_of_def rev_map map_of_find option.map_comp
        comp_def entry_of_def)

text \<open>
  What the \<open>catch\<close> block of \<open>execute_tool\<close> does contain: a handler that throws, or rejects
  with, a value that has a message.
\<close>

lemma execute_tool_contains_error:
  assumes "getHandler r n = Some h"
    and "h params = ThrowsSync (ErrorWithMessage m) \<or> h params = Rejects (ErrorWithMessage m)"
    and "stringifiable (JObj params) \<or> \<not> shouldLog lg Info"
  shows "execute_tool lg r n params = Returned (faultResult m)"
  using assms
  by (auto simp: execute_tool_def catchBlock_def faultResult_def logger_info_params
        logger_error_message)

lemma execute_tool_contains_thrown_error:
  "execute_tool lg
     (registry_after
        [Registration ''send_message'' ''messaging'' ''Send Message'' ''Send a message'' [] []
           throwingHandler])
     ''send_message'' [] = Returned (faultResult ''Client user not available'')"
  by (simp add: execute_tool_def getHandler_after entry_of_def throwingHandler_def catchBlock_def
        faultResult_def logger_info_params logger_error_message)

text \<open>
  C1. The claim is that \<open>execute_tool\<close> turns every fault of a registered handler into an
  error-flagged result and lets no exception out. At a handler that rejects with
  \<open>undefined\<close> the code does not, whatever the logger: the \<open>catch\<close> block reads
  \<open>error.message\<close>, which throws a \<open>TypeError\<close>, and the promise of \<open>execute_tool\<close> is
  rejected.
\<close>

theorem C1_nullish_rejection_escapes:
  "execute_tool lg
     (registry_after
        [Registration ''send_message'' ''messaging'' ''Send Message'' ''Send a message'' [] []
           rejectingHandler])
     ''send_message'' [] = Raised TypeError"
  by (simp add: execute_tool_def getHandler_after entry_of_def rejectingHandler_def catchBlock_def
        logger_info_params)

text \<open>
  C3, as amended. On a reachable registry, when the handler of the latest registration
  under a name resolves to a result for a parameter bag, and the bag is one that
  \<open>JSON.stringify\<close> accepts (or the logger does not log at level \<open>info\<close>), \<open>execute_tool\<close>
  returns that result as it is, whatever its content, structured payload and error flag.
\<close>

theorem C3_dispatch_passthrough:
  assumes "registration_of cs n = Some c"
    and "reg_handler c params = Resolves result"
    and "stringifiable (JObj params) \<or> \<not> shouldLog lg Info"
  shows "execute_tool lg (registry_after cs) n params = Returned result"
  using assms
  by (simp add: execute_tool_def getHandler_registration logger_info_params)

theorem C3_dispatch_passthrough_witness:
  "registration_of
     [Registration ''send_message'' ''messaging'' ''Send Message'' ''Send a message'' [] []
        okHandler,
      banMemberCall,
      Registration ''send_message'' ''messaging'' ''Send Message'' ''Send a message'' [] []
        sendMessageHandler]
     ''send_message''
     = Some (Registration ''send_message'' ''messaging'' ''Send Message'' ''Send a message'' [] []
               sendMessageHandler) \<and>
   sendMessageHandler [(''channelId'', JStr ''bad'')] = Resolves channelNotFound \<and>
   stringifiable (JObj [(''channelId'', JStr ''bad'')]) \<and>
   execute_tool defaultLogger
     (registry_after
        [Registration ''send_message'' ''messaging'' ''Send Message'' ''Send a message'' [] []
           okHandler,
         banMemberCall,
         Registration ''send_message'' ''messaging'' ''Send Message'' ''Send a message'' [] []
           sendMessageHandler])
     ''send_message'' [(''channelId'', JStr ''bad'')] = Returned channelNotFound"
proof -
  let ?c = "Registration ''send_message'' ''messaging'' ''Send Message'' ''Send a message'' [] []
              sendMessageHandler"
  let ?cs = "[Registration ''send_message'' ''messaging'' ''Send Message'' ''Send a message'' [] []
                okHandler, banMemberCall, ?c]"
  have a: "registration_of ?cs ''send_message'' = Some ?c"
    by (simp add: registration_of_def)
  have b: "reg_handler ?c [(''channelId'', JStr ''bad'')] = Resolves channelNotFound"
    by (simp add: sendMessageHandler_def)
  have c: "stringifiable (JObj [(''channelId'', JStr ''bad'')]) \<or> \<not> shouldLog defaultLogger Info"
    by simp
  show ?thesis
    using C3_dispatch_passthrough [OF a b c] a b by simp
qed

text \<open>
  The claim as stated, for every parameter bag, fails at a bag that \<open>JSON.stringify\<close>
  throws on: the handler would resolve, but \<open>logger.info\<close> throws before the \<open>try\<close>, the
  handler is not called and the promise of \<open>execute_tool\<close> is rejected.
\<close>

theorem C3_unloggable_params_counterexample:
  "sendMessageHandler [(''channelId'', JBigInt 123)] = Resolves messageSent \<and>
   execute_tool defaultLogger
     (registry_after
        [Registration ''send_message'' ''messaging'' ''Send Message'' ''Send a message'' [] []
           sendMessageHandler])
     ''send_message'' [(''channelId'', JBigInt 123)] = Raised TypeError"
  by (simp add: execute_tool_def getHandler_after entry_of_def sendMessageHandler_def
        logger_info_params shouldLog_def defaultLogger_def)

text \<open>
  C4. For a name that is not a key of the tool table, \<open>get_tool_schema\<close> and \<open>execute_tool\<close>
  both return (neither throws) an error-flagged result whose text names \<open>search_tools\<close>
  and \<open>list_tools\<close>; the structured payload of \<open>execute_tool\<close> is \<open>success: false\<close> with
  the error message.
\<close>

theorem C4_unknown_tool_name:
  assumes "\<not> hasTool r n"
  shows "get_tool_schema lg low stringify r n =
           Returned \<lparr>content = [TextBlock (notFoundText n)], structuredContent = None,
                     isError = Some True\<rparr> \<and>
         execute_tool lg r n params =
           Returned \<lparr>content = [TextBlock (notFoundText n)],
                     structuredContent =
                       Some [(''success'', JBool False),
                             (''error'', JStr (''Tool '' @ quote @ n @ quote @ '' not found''))],
                     isError = Some True\<rparr> \<and>
         str_includes (notFoundText n) ''search_tools'' \<and>
         str_includes (notFoundText n) ''list_tools''"
  using assms notFoundText_guides [of n]
  by (simp add: hasTool_def get_tool_schema_def execute_tool_def getToolSchema_def getHandler_def)

theorem C4_unknown_tool_name_witness:
  "\<not> hasTool (registry_after [sendMessageCall]) ''does_not_exist'' \<and>
   execute_tool defaultLogger (registry_after [sendMessageCall]) ''does_not_exist'' [] =
     Returned \<lparr>content =
                 [TextBlock (''Tool '' @ quote @ ''does_not_exist'' @ quote @
                    '' not found. Use search_tools or list_tools to find valid tool names.'')],
               structuredContent =
                 Some [(''success'', JBool False),
                       (''error'', JStr (''Tool '' @ quote @ ''does_not_exist'' @ quote @ '' not found''))],
               isError = Some True\<rparr>"
  using C4_unknown_tool_name
    [of "registry_after [sendMessageCall]" "''does_not_exist''" defaultLogger keepNonAscii
        "\<lambda>v. []" "[]"]
  by (simp add: hasTool_def tools_after sendMessageCall_def notFoundText_def)

section \<open>Search\<close>











































section \<open>Schema lowering\<close>

lemma lastCheck_snoc:
  "lastCheck k (Some (cs @ [c])) = (if kind c = k then Some (cvalue c) else lastCheck k (Some cs))"
  by (simp add: lastCheck_def checksOf_def)

lemma lastCheck_Nil: "lastCheck k (Some []) = None" "lastCheck k None = None"
  by (simp_all add: lastCheck_def checksOf_def)

lemma string_checks:
  "map_of (foldl handleZodStringCheck [(''type'', JStr ''string'')] cs) ''type'' = Some (JStr ''string'') \<and>
   map_of (foldl handleZodStringCheck [(''type'', JStr ''string'')] cs) ''minLength'' = lastCheck ''min'' (Some cs) \<and>
   map_of (foldl handleZodStringCheck [(''type'', JStr ''string'')] cs) ''maxLength'' = lastCheck ''max'' (Some cs) \<and>
   fst ` set (foldl handleZodStringCheck [(''type'', JStr ''string'')] cs)
     \<subseteq> {''type'', ''minLength'', ''maxLength''}"
proof (induction cs rule: rev_induct)
  case Nil
  show ?case by (simp add: lastCheck_Nil)
next
  case (snoc c cs)
  then show ?case
    by (auto simp: handleZodStringCheck_def Let_def update_conv' lastCheck_snoc dom_update)
qed

lemma handleZodString_keys:
  "map_of (handleZodString chks) ''type'' = Some (JStr ''string'') \<and>
   map_of (handleZodString chks) ''minLength'' = lastCheck ''min'' chks \<and>
   map_of (handleZodString chks) ''maxLength'' = lastCheck ''max'' chks \<and>
   fst ` set (handleZodString chks) \<subseteq> {''type'', ''minLength'', ''maxLength''}"
proof (cases chks)
  case None
  then show ?thesis by (simp add: handleZodString_def lastCheck_Nil)
next
  case (Some cs)
  then show ?thesis using string_checks [of cs] by (simp add: handleZodString_def)
qed

lemma number_checks:
  "map_of (foldl handleZodNumberCheck [(''type'', JStr ''number'')] cs) ''type''
     = Some (JStr (if \<exists>c \<in> set cs. kind c = ''int'' then ''integer'' else ''number'')) \<and>
   map_of (foldl handleZodNumberCheck [(''type'', JStr ''number'')] cs) ''minimum'' = lastCheck ''min'' (Some cs) \<and>
   map_of (foldl handleZodNumberCheck [(''type'', JStr ''number'')] cs) ''maximum'' = lastCheck ''max'' (Some cs) \<and>
   fst ` set (foldl handleZodNumberCheck [(''type'', JStr ''number'')] cs)
     \<subseteq> {''type'', ''minimum'', ''maximum''}"
proof (induction cs rule: rev_induct)
  case Nil
  show ?case by (simp add: lastCheck_Nil)
next
  case (snoc c cs)
  then show ?case
    by (auto simp: handleZodNumberCheck_def Let_def update_conv' lastCheck_snoc dom_update)
qed

lemma handleZodNumber_keys:
  "map_of (handleZodNumber chks) ''type''
     = Some (JStr (if \<exists>c \<in> set (checksOf chks). kind c = ''int'' then ''integer'' else ''number'')) \<and>
   map_of (handleZodNumber chks) ''minimum'' = lastCheck ''min'' chks \<and>
   map_of (handleZodNumber chks) ''maximum'' = lastCheck ''max'' chks \<and>
   fst ` set (handleZodNumber chks) \<subseteq> {''type'', ''minimum'', ''maximum''}"
proof (cases chks)
  case None
  then show ?thesis by (simp add: handleZodNumber_def lastCheck_Nil checksOf_def)
next
  case (Some cs)
  then show ?thesis using number_checks [of cs] by (simp add: handleZodNumber_def checksOf_def)
qed

lemma arrayBounds_keys:
  "map_of (arrayBounds maxLen minLen [(''type'', JStr ''array''), (''items'', JObj items)]) ''type''
     = Some (JStr ''array'') \<and>
   map_of (arrayBounds maxLen minLen [(''type'', JStr ''array''), (''items'', JObj items)]) ''items''
     = Some (JObj items) \<and>
   map_of (arrayBounds maxLen minLen [(''type'', JStr ''array''), (''items'', JObj items)]) ''minItems''
     = map_option JNum minLen \<and>
   map_of (arrayBounds maxLen minLen [(''type'', JStr ''array''), (''items'', JObj items)]) ''maxItems''
     = map_option JNum maxLen \<and>
   map_of (arrayBounds maxLen minLen [(''type'', JStr ''array''), (''items'', JObj items)]) ''minLength''
     = None \<and>
   map_of (arrayBounds maxLen minLen [(''type'', JStr ''array''), (''items'', JObj items)]) ''maxLength''
     = None"
  by (cases maxLen; cases minLen) (simp_all add: arrayBounds_def update_conv')

lemma not_fault: "x \<noteq> Inl TypeError \<Longrightarrow> \<exists>s. x = Inr s"
  by (cases x) (auto intro: js_fault.exhaust)

lemma lowered_Inr: "zodToJsonSchema low z \<noteq> Inl TypeError \<Longrightarrow> zodToJsonSchema low z = Inr (lowered low z)"
  using not_fault [of "zodToJsonSchema low z"] by (auto simp: lowered_def)

lemma mapZodToJsonSchema_all:
  "\<forall>z \<in> set zs. zodToJsonSchema low z \<noteq> Inl TypeError \<Longrightarrow>
   mapZodToJsonSchema low zs = Inr (map (\<lambda>z. JObj (lowered low z)) zs)"
  by (induction zs) (simp_all add: lowered_Inr)

lemma serializeSchemaInto_all:
  "\<forall>p \<in> set sh. zodToJsonSchema low (snd p) \<noteq> Inl TypeError \<Longrightarrow>
   serializeSchemaInto low acc sh =
     Inr (foldl (\<lambda>a p. assignProperty (fst p) (JObj (lowered low (snd p))) a) acc sh)"
proof (induction sh arbitrary: acc)
  case Nil
  show ?case by simp
next
  case (Cons p sh)
  obtain k z where p: "p = (k, z)" by (cases p)
  with Cons.prems have "zodToJsonSchema low z = Inr (lowered low z)"
    by (simp add: lowered_Inr)
  with Cons show ?case by (simp add: p)
qed

lemma update_new: "k \<notin> fst ` set al \<Longrightarrow> AList.update k v al = al @ [(k, v)]"
  by (induction al) auto

lemma foldl_assign_distinct:
  "distinct (map fst acc @ map fst xs) \<Longrightarrow> ''__proto__'' \<notin> fst ` set xs \<Longrightarrow>
   foldl (\<lambda>a p. assignProperty (fst p) (g p) a) acc xs = acc @ map (\<lambda>p. (fst p, g p)) xs"
proof (induction xs arbitrary: acc)
  case Nil
  show ?case by simp
next
  case (Cons p xs)
  have new: "fst p \<notin> fst ` set acc" using Cons.prems by auto
  have key: "fst p \<noteq> ''__proto__''" using Cons.prems(2) by auto
  have "distinct (map fst (acc @ [(fst p, g p)]) @ map fst xs)"
    using Cons.prems by auto
  moreover have "''__proto__'' \<notin> fst ` set xs" using Cons.prems(2) by auto
  ultimately have "foldl (\<lambda>a p. assignProperty (fst p) (g p) a) (acc @ [(fst p, g p)]) xs
                     = (acc @ [(fst p, g p)]) @ map (\<lambda>p. (fst p, g p)) xs"
    by (rule Cons.IH)
  then show ?case
    using key by (simp add: assignProperty_def update_new [OF new])
qed

lemma serializeSchema_all:
  assumes "distinct (map fst schema)"
    and "''__proto__'' \<notin> fst ` set schema"
    and "\<forall>p \<in> set schema. zodToJsonSchema low (snd p) \<noteq> Inl TypeError"
  shows "serializeSchema low schema = Inr (map (\<lambda>p. (fst p, JObj (lowered low (snd p)))) schema)"
  using serializeSchemaInto_all [OF assms(3), of "[]"]
    foldl_assign_distinct [of "[]" schema "\<lambda>p. JObj (lowered low (snd p))"] assms(1,2)
  by (simp add: serializeSchema_def)

text \<open>
  A parameter named \<open>__proto__\<close> is the one the loop of \<open>serializeSchema\<close> loses.
\<close>

lemma serializeSchema_proto_key:
  "serializeSchema low [(''__proto__'', NoDef), (''query'', NoDef)] =
     Inr [(''query'', JObj [(''type'', JStr ''unknown'')])]"
  by (simp add: serializeSchema_def assignProperty_def)

lemma fallback_lowering:
  "tn \<notin> set recognizedTypeNames \<Longrightarrow>
   zodToJsonSchema low (ZodDef tn desc chks vals inner shp ty dflt opts minLen maxLen) =
     Inr (withDescription desc [(''type'', JStr (toLowerCase low (replace_first tn ''Zod'')))])"
  by (simp add: recognizedTypeNames_def)

lemma withDescription_cases:
  "withDescription None s = s"
  "withDescription (Some []) s = s"
  "t \<noteq> [] \<Longrightarrow> withDescription (Some t) s = AList.update ''description'' (JStr t) s"
  by (simp_all add: withDescription_def)

text \<open>
  C9, as amended. \<open>serializeSchema\<close> lowers each named descriptor of a schema map that
  has no parameter named \<open>__proto__\<close>: the result has a property for exactly the names of
  the map, each holding the lowered descriptor. \<open>zodToJsonSchema\<close>
  lowers a descriptor by its kind: a string to type \<open>string\<close> with \<open>minLength\<close> and
  \<open>maxLength\<close> from its last \<open>min\<close> and \<open>max\<close> checks; a number to type \<open>number\<close>, or
  \<open>integer\<close> when it has an \<open>int\<close> check, with \<open>minimum\<close> and \<open>maximum\<close>; a boolean to type
  \<open>boolean\<close>; an array to type \<open>array\<close> with the lowered \<open>items\<close> and the bounds \<open>minItems\<close>
  and \<open>maxItems\<close> (not \<open>minLength\<close>/\<open>maxLength\<close>); an object to type \<open>object\<close> with the
  lowered \<open>properties\<close>; an optional, default-valued or nullable wrapper to the lowered
  inner schema with \<open>optional: true\<close>, \<open>default: value\<close> or \<open>nullable: true\<close> set; an enum to
  type \<open>string\<close> with \<open>enum\<close>; a union to \<open>oneOf\<close> of the lowered options; and a kind the
  walker has no case for to type \<open>toLowerCase (kind name without Zod)\<close>, never to a fault.
  Every lowered schema gets the descriptor's \<open>description\<close> when that is a non-empty
  string.
\<close>

theorem C9_schema_lowering:
  "(let d = ZodDef tn desc chks vals inner shp ty dflt opts minLen maxLen in
    (distinct (map fst schema) \<and> ''__proto__'' \<notin> fst ` set schema \<and>
     (\<forall>p \<in> set schema. zodToJsonSchema low (snd p) \<noteq> Inl TypeError) \<longrightarrow>
       (\<exists>res. serializeSchema low schema = Inr res \<and> distinct (map fst res) \<and>
              (\<forall>k. map_of res k = map_option (\<lambda>z. JObj (lowered low z)) (map_of schema k)))) \<and>
    (tn = ''ZodString'' \<longrightarrow>
       zodToJsonSchema low d = Inr (withDescription desc (handleZodString chks)) \<and>
       map_of (handleZodString chks) ''type'' = Some (JStr ''string'') \<and>
       map_of (handleZodString chks) ''minLength'' = lastCheck ''min'' chks \<and>
       map_of (handleZodString chks) ''maxLength'' = lastCheck ''max'' chks \<and>
       fst ` set (handleZodString chks) \<subseteq> {''type'', ''minLength'', ''maxLength''}) \<and>
    (tn = ''ZodNumber'' \<longrightarrow>
       zodToJsonSchema low d = Inr (withDescription desc (handleZodNumber chks)) \<and>
       map_of (handleZodNumber chks) ''type'' =
         Some (JStr (if \<exists>c \<in> set (checksOf chks). kind c = ''int''
                     then ''integer'' else ''number'')) \<and>
       map_of (handleZodNumber chks) ''minimum'' = lastCheck ''min'' chks \<and>
       map_of (handleZodNumber chks) ''maximum'' = lastCheck ''max'' chks \<and>
       fst ` set (handleZodNumber chks) \<subseteq> {''type'', ''minimum'', ''maximum''}) \<and>
    (tn = ''ZodBoolean'' \<longrightarrow>
       zodToJsonSchema low d = Inr (withDescription desc [(''type'', JStr ''boolean'')])) \<and>
    (\<forall>t items. tn = ''ZodArray'' \<and> ty = Some t \<and> zodToJsonSchema low t = Inr items \<longrightarrow>
       (\<exists>s. zodToJsonSchema low d = Inr (withDescription desc s) \<and>
            map_of s ''type'' = Some (JStr ''array'') \<and>
            map_of s ''items'' = Some (JObj items) \<and>
            map_of s ''minItems'' = map_option JNum minLen \<and>
            map_of s ''maxItems'' = map_option JNum maxLen \<and>
            map_of s ''minLength'' = None \<and>
            map_of s ''maxLength'' = None)) \<and>
    (\<forall>sh props. tn = ''ZodObject'' \<and> shp = Some sh \<and> serializeSchema low sh = Inr props \<longrightarrow>
       zodToJsonSchema low d =
         Inr (withDescription desc [(''type'', JStr ''object''), (''properties'', JObj props)])) \<and>
    (\<forall>t s. tn = ''ZodOptional'' \<and> inner = Some t \<and> zodToJsonSchema low t = Inr s \<longrightarrow>
       zodToJsonSchema low d =
         Inr (withDescription desc (AList.update ''optional'' (JBool True) s))) \<and>
    (\<forall>t s v. tn = ''ZodDefault'' \<and> inner = Some t \<and> zodToJsonSchema low t = Inr s \<and> dflt = Some v \<longrightarrow>
       zodToJsonSchema low d = Inr (withDescription desc (AList.update ''default'' v s))) \<and>
    (\<forall>vs. tn = ''ZodEnum'' \<and> vals = Some vs \<longrightarrow>
       zodToJsonSchema low d =
         Inr (withDescription desc [(''type'', JStr ''string''), (''enum'', JArr vs)])) \<and>
    (\<forall>os. tn = ''ZodUnion'' \<and> opts = Some os \<and>
           (\<forall>z \<in> set os. zodToJsonSchema low z \<noteq> Inl TypeError) \<longrightarrow>
       zodToJsonSchema low d =
         Inr (withDescription desc [(''oneOf'', JArr (map (\<lambda>z. JObj (lowered low z)) os))])) \<and>
    (\<forall>t s. tn = ''ZodNullable'' \<and> inner = Some t \<and> zodToJsonSchema low t = Inr s \<longrightarrow>
       zodToJsonSchema low d =
         Inr (withDescription desc (AList.update ''nullable'' (JBool True) s))) \<and>
    (tn \<notin> set recognizedTypeNames \<longrightarrow>
       zodToJsonSchema low d =
         Inr (withDescription desc [(''type'', JStr (toLowerCase low (replace_first tn ''Zod'')))])) \<and>
    zodToJsonSchema low NoDef = Inr [(''type'', JStr ''unknown'')] \<and>
    (\<forall>s. withDescription None s = s \<and> withDescription (Some []) s = s) \<and>
    (\<forall>s t. t \<noteq> [] \<longrightarrow>
       withDescription (Some t) s = AList.update ''description'' (JStr t) s))"
  unfolding Let_def
proof (intro conjI)
  show "distinct (map fst schema) \<and> ''__proto__'' \<notin> fst ` set schema \<and>
     (\<forall>p \<in> set schema. zodToJsonSchema low (snd p) \<noteq> Inl TypeError) \<longrightarrow>
       (\<exists>res. serializeSchema low schema = Inr res \<and> distinct (map fst res) \<and>
              (\<forall>k. map_of res k = map_option (\<lambda>z. JObj (lowered low z)) (map_of schema k)))"
  proof (intro impI)
    assume h: "distinct (map fst schema) \<and> ''__proto__'' \<notin> fst ` set schema \<and>
     (\<forall>p \<in> set schema. zodToJsonSchema low (snd p) \<noteq> Inl TypeError)"
    let ?res = "map (\<lambda>p. (fst p, JObj (lowered low (snd p)))) schema"
    have eq: "serializeSchema low schema = Inr ?res"
      using serializeSchema_all h by blast
    have d: "distinct (map fst ?res)"
      using h by (simp add: comp_def)
    have m: "\<forall>k. map_of ?res k = map_option (\<lambda>z. JObj (lowered low z)) (map_of schema k)"
      by (simp add: map_of_keyed)
    show "\<exists>res. serializeSchema low schema = Inr res \<and> distinct (map fst res) \<and>
              (\<forall>k. map_of res k = map_option (\<lambda>z. JObj (lowered low z)) (map_of schema k))"
      using eq d m by blast
  qed
next
  show "tn = ''ZodString'' \<longrightarrow>
       zodToJsonSchema low (ZodDef tn desc chks vals inner shp ty dflt opts minLen maxLen)
         = Inr (withDescription desc (handleZodString chks)) \<and>
       map_of (handleZodString chks) ''type'' = Some (JStr ''string'') \<and>
       map_of (handleZodString chks) ''minLength'' = lastCheck ''min'' chks \<and>
       map_of (handleZodString chks) ''maxLength'' = lastCheck ''max'' chks \<and>
       fst ` set (handleZodString chks) \<subseteq> {''type'', ''minLength'', ''maxLength''}"
    using handleZodString_keys [of chks] by simp
next
  show "tn = ''ZodNumber'' \<longrightarrow>
       zodToJsonSchema low (ZodDef tn desc chks vals inner shp ty dflt opts minLen maxLen)
         = Inr (withDescription desc (handleZodNumber chks)) \<and>
       map_of (handleZodNumber chks) ''type'' =
         Some (JStr (if \<exists>c \<in> set (checksOf chks). kind c = ''int''
                     then ''integer'' else ''number'')) \<and>
       map_of (handleZodNumber chks) ''minimum'' = lastCheck ''min'' chks \<and>
       map_of (handleZodNumber chks) ''maximum'' = lastCheck ''max'' chks \<and>
       fst ` set (handleZodNumber chks) \<subseteq> {''type'', ''minimum'', ''maximum''}"
    using handleZodNumber_keys [of chks] by simp
next
  show "tn = ''ZodBoolean'' \<longrightarrow>
       zodToJsonSchema low (ZodDef tn desc chks vals inner shp ty dflt opts minLen maxLen)
         = Inr (withDescription desc [(''type'', JStr ''boolean'')])"
    by simp
next
  show "\<forall>t items. tn = ''ZodArray'' \<and> ty = Some t \<and> zodToJsonSchema low t = Inr items \<longrightarrow>
       (\<exists>s. zodToJsonSchema low (ZodDef tn desc chks vals inner shp ty dflt opts minLen maxLen)
              = Inr (withDescription desc s) \<and>
            map_of s ''type'' = Some (JStr ''array'') \<and>
            map_of s ''items'' = Some (JObj items) \<and>
            map_of s ''minItems'' = map_option JNum minLen \<and>
            map_of s ''maxItems'' = map_option JNum maxLen \<and>
            map_of s ''minLength'' = None \<and>
            map_of s ''maxLength'' = None)"
  proof (intro allI impI)
    fix t items
    assume a: "tn = ''ZodArray'' \<and> ty = Some t \<and> zodToJsonSchema low t = Inr items"
    let ?s = "arrayBounds maxLen minLen [(''type'', JStr ''array''), (''items'', JObj items)]"
    have "zodToJsonSchema low (ZodDef tn desc chks vals inner shp ty dflt opts minLen maxLen)
            = Inr (withDescription desc ?s)"
      using a by simp
    with arrayBounds_keys [of maxLen minLen items]
    show "\<exists>s. zodToJsonSchema low (ZodDef tn desc chks vals inner shp ty dflt opts minLen maxLen)
              = Inr (withDescription desc s) \<and>
            map_of s ''type'' = Some (JStr ''array'') \<and>
            map_of s ''items'' = Some (JObj items) \<and>
            map_of s ''minItems'' = map_option JNum minLen \<and>
            map_of s ''maxItems'' = map_option JNum maxLen \<and>
            map_of s ''minLength'' = None \<and>
            map_of s ''maxLength'' = None"
      by blast
  qed
next
  show "\<forall>sh props. tn = ''ZodObject'' \<and> shp = Some sh \<and> serializeSchema low sh = Inr props \<longrightarrow>
       zodToJsonSchema low (ZodDef tn desc chks vals inner shp ty dflt opts minLen maxLen) =
         Inr (withDescription desc [(''type'', JStr ''object''), (''properties'', JObj props)])"
    by (simp add: serializeSchema_def)
next
  show "\<forall>t s. tn = ''ZodOptional'' \<and> inner = Some t \<and> zodToJsonSchema low t = Inr s \<longrightarrow>
       zodToJsonSchema low (ZodDef tn desc chks vals inner shp ty dflt opts minLen maxLen) =
         Inr (withDescription desc (AList.update ''optional'' (JBool True) s))"
    by (simp add: spread_def)
next
  show "\<forall>t s v. tn = ''ZodDefault'' \<and> inner = Some t \<and> zodToJsonSchema low t = Inr s \<and> dflt = Some v \<longrightarrow>
       zodToJsonSchema low (ZodDef tn desc chks vals inner shp ty dflt opts minLen maxLen)
         = Inr (withDescription desc (AList.update ''default'' v s))"
    by (simp add: spread_def)
next
  show "\<forall>vs. tn = ''ZodEnum'' \<and> vals = Some vs \<longrightarrow>
       zodToJsonSchema low (ZodDef tn desc chks vals inner shp ty dflt opts minLen maxLen) =
         Inr (withDescription desc [(''type'', JStr ''string''), (''enum'', JArr vs)])"
    by simp
next
  show "\<forall>os. tn = ''ZodUnion'' \<and> opts = Some os \<and>
           (\<forall>z \<in> set os. zodToJsonSchema low z \<noteq> Inl TypeError) \<longrightarrow>
       zodToJsonSchema low (ZodDef tn desc chks vals inner shp ty dflt opts minLen maxLen) =
         Inr (withDescription desc [(''oneOf'', JArr (map (\<lambda>z. JObj (lowered low z)) os))])"
    by (simp add: mapZodToJsonSchema_all)
next
  show "\<forall>t s. tn = ''ZodNullable'' \<and> inner = Some t \<and> zodToJsonSchema low t = Inr s \<longrightarrow>
       zodToJsonSchema low (ZodDef tn desc chks vals inner shp ty dflt opts minLen maxLen) =
         Inr (withDescription desc (AList.update ''nullable'' (JBool True) s))"
    by (simp add: spread_def)
next
  show "tn \<notin> set recognizedTypeNames \<longrightarrow>
       zodToJsonSchema low (ZodDef tn desc chks vals inner shp ty dflt opts minLen maxLen) =
         Inr (withDescription desc [(''type'', JStr (toLowerCase low (replace_first tn ''Zod'')))])"
    using fallback_lowering by blast
next
  show "zodToJsonSchema low NoDef = Inr [(''type'', JStr ''unknown'')]" by simp
next
  show "\<forall>s. withDescription None s = s \<and> withDescription (Some []) s = s"
    by (simp add: withDescription_cases)
next
  show "\<forall>s t. t \<noteq> [] \<longrightarrow>
       withDescription (Some t) s = AList.update ''description'' (JStr t) s"
    by (simp add: withDescription_cases)
qed

theorem C9_schema_lowering_witness:
  "zodToJsonSchema keepNonAscii boundedIntSchema =
     Inr [(''type'', JStr ''integer''), (''minimum'', JNum (Finite 1)),
          (''maximum'', JNum (Finite 50))] \<and>
   zodToJsonSchema keepNonAscii limitSchema =
     Inr [(''type'', JStr ''integer''), (''minimum'', JNum (Finite 1)),
          (''maximum'', JNum (Finite 50)), (''default'', JNum (Finite 20)),
          (''description'', JStr ''Maximum results to return'')] \<and>
   ''ZodLiteral'' \<notin> set recognizedTypeNames \<and>
   zodToJsonSchema keepNonAscii literalSchema = Inr [(''type'', JStr ''literal'')] \<and>
   (\<exists>s. zodToJsonSchema keepNonAscii tagsSchema = Inr s \<and>
        map_of s ''minItems'' = Some (JNum (Finite 1)) \<and>
        map_of s ''maxItems'' = Some (JNum (Finite 5)) \<and>
        map_of s ''maxLength'' = None) \<and>
   distinct (map fst [(''limit'', limitSchema), (''tags'', tagsSchema)]) \<and>
   ''__proto__'' \<notin> fst ` set [(''limit'', limitSchema), (''tags'', tagsSchema)] \<and>
   (\<exists>res. serializeSchema keepNonAscii [(''limit'', limitSchema), (''tags'', tagsSchema)]
            = Inr res \<and>
          map_of res ''limit'' = Some (JObj (lowered keepNonAscii limitSchema)) \<and>
          map_of res ''tags'' = Some (JObj (lowered keepNonAscii tagsSchema)))"
proof -
  have num: "zodToJsonSchema keepNonAscii boundedIntSchema =
     Inr [(''type'', JStr ''integer''), (''minimum'', JNum (Finite 1)),
          (''maximum'', JNum (Finite 50))]"
    by (simp add: boundedIntSchema_def handleZodNumber_def handleZodNumberCheck_def
          withDescription_def)
  note dflt =
    C9_schema_lowering [unfolded Let_def, where low = keepNonAscii and tn = "''ZodDefault''"
          and desc = "Some ''Maximum results to return''" and chks = None and vals = None
          and inner = "Some boundedIntSchema" and shp = None and ty = None
          and dflt = "Some (JNum (Finite 20))" and opts = None and minLen = None
          and maxLen = None
          and schema = "[(''limit'', limitSchema), (''tags'', tagsSchema)]"]
  note dflt8 = dflt [THEN conjunct2, THEN conjunct2, THEN conjunct2, THEN conjunct2,
      THEN conjunct2, THEN conjunct2, THEN conjunct2, THEN conjunct1, rule_format,
      of boundedIntSchema
         "[(''type'', JStr ''integer''), (''minimum'', JNum (Finite 1)),
           (''maximum'', JNum (Finite 50))]"
         "JNum (Finite 20)"]
  have lim: "zodToJsonSchema keepNonAscii limitSchema =
     Inr [(''type'', JStr ''integer''), (''minimum'', JNum (Finite 1)),
          (''maximum'', JNum (Finite 50)), (''default'', JNum (Finite 20)),
          (''description'', JStr ''Maximum results to return'')]"
    using num dflt8 unfolding limitSchema_def
    by (simp add: withDescription_def)
  have nr: "''ZodLiteral'' \<notin> set recognizedTypeNames"
    by (simp add: recognizedTypeNames_def)
  note fb =
    C9_schema_lowering [unfolded Let_def, where low = keepNonAscii and tn = "''ZodLiteral''"
          and desc = None and chks = None
          and vals = None and inner = None and shp = None and ty = None and dflt = None
          and opts = None and minLen = None and maxLen = None and schema = "[]"]
  note fb12 = fb [THEN conjunct2, THEN conjunct2, THEN conjunct2, THEN conjunct2,
      THEN conjunct2, THEN conjunct2, THEN conjunct2, THEN conjunct2, THEN conjunct2,
      THEN conjunct2, THEN conjunct2, THEN conjunct1, rule_format]
  have lit: "zodToJsonSchema keepNonAscii literalSchema = Inr [(''type'', JStr ''literal'')]"
    using fb12 [OF nr] unfolding literalSchema_def
    by (simp add: withDescription_def toLowerCase_def isAscii_def toLowerCaseChar_def)
  have str: "zodToJsonSchema keepNonAscii
               (ZodDef ''ZodString'' None (Some []) None None None None None None None None)
             = Inr [(''type'', JStr ''string'')]"
    by (simp add: handleZodString_def withDescription_def)
  note ar =
    C9_schema_lowering [unfolded Let_def, where low = keepNonAscii and tn = "''ZodArray''"
          and desc = None and chks = None
          and vals = None and inner = None and shp = None
          and ty = "Some (ZodDef ''ZodString'' None (Some []) None None None None None None None None)"
          and dflt = None and opts = None and minLen = "Some (Finite 1)"
          and maxLen = "Some (Finite 5)" and schema = "[]"]
  note ar5 = ar [THEN conjunct2, THEN conjunct2, THEN conjunct2, THEN conjunct2,
      THEN conjunct1, rule_format,
      of "ZodDef ''ZodString'' None (Some []) None None None None None None None None"
         "[(''type'', JStr ''string'')]"]
  have arr: "\<exists>s. zodToJsonSchema keepNonAscii tagsSchema = Inr s \<and>
        map_of s ''minItems'' = Some (JNum (Finite 1)) \<and>
        map_of s ''maxItems'' = Some (JNum (Finite 5)) \<and>
        map_of s ''maxLength'' = None"
  proof -
    from ar5 str obtain s where
      "zodToJsonSchema keepNonAscii tagsSchema = Inr (withDescription None s)"
      "map_of s ''minItems'' = map_option JNum (Some (Finite 1))"
      "map_of s ''maxItems'' = map_option JNum (Some (Finite 5))"
      "map_of s ''maxLength'' = None"
      unfolding tagsSchema_def by blast
    then show ?thesis by (simp add: withDescription_def)
  qed
  have ok: "\<forall>p \<in> set [(''limit'', limitSchema), (''tags'', tagsSchema)].
              zodToJsonSchema keepNonAscii (snd p) \<noteq> Inl TypeError"
    using lim arr by auto
  have dist: "distinct (map fst [(''limit'', limitSchema), (''tags'', tagsSchema)])"
    by simp
  have noproto: "''__proto__'' \<notin> fst ` set [(''limit'', limitSchema), (''tags'', tagsSchema)]"
    by simp
  have hyp: "distinct (map fst [(''limit'', limitSchema), (''tags'', tagsSchema)]) \<and>
             ''__proto__'' \<notin> fst ` set [(''limit'', limitSchema), (''tags'', tagsSchema)] \<and>
             (\<forall>p \<in> set [(''limit'', limitSchema), (''tags'', tagsSchema)].
                zodToJsonSchema keepNonAscii (snd p) \<noteq> Inl TypeError)"
    using dist noproto ok by blast
  have ser: "\<exists>res. serializeSchema keepNonAscii [(''limit'', limitSchema), (''tags'', tagsSchema)]
                  = Inr res \<and>
          map_of res ''limit'' = Some (JObj (lowered keepNonAscii limitSchema)) \<and>
          map_of res ''tags'' = Some (JObj (lowered keepNonAscii tagsSchema))"
  proof -
    from dflt [THEN conjunct1, rule_format, OF hyp] obtain res
      where r: "serializeSchema keepNonAscii [(''limit'', limitSchema), (''tags'', tagsSchema)]
                  = Inr res"
        and m: "\<forall>k. map_of res k =
                     map_option (\<lambda>z. JObj (lowered keepNonAscii z))
                       (map_of [(''limit'', limitSchema), (''tags'', tagsSchema)] k)"
      by blast
    have "map_of res ''limit'' = Some (JObj (lowered keepNonAscii limitSchema))"
      using m [rule_format, of "''limit''"] by simp
    moreover have "map_of res ''tags'' = Some (JObj (lowered keepNonAscii tagsSchema))"
      using m [rule_format, of "''tags''"] by simp
    ultimately show ?thesis using r by blast
  qed
  show ?thesis using num lim nr lit arr dist noproto ser by blast
qed

text \<open>
  The claim as stated gives arrays the bounds \<open>minLength\<close>/\<open>maxLength\<close>; the lowered
  \<open>z.array(z.string()).min(1).max(5)\<close> has \<open>minItems\<close> and \<open>maxItems\<close> and neither of those.
\<close>

theorem C9_array_bounds_counterexample:
  "zodToJsonSchema keepNonAscii tagsSchema =
     Inr [(''type'', JStr ''array''), (''items'', JObj [(''type'', JStr ''string'')]),
          (''maxItems'', JNum (Finite 5)), (''minItems'', JNum (Finite 1))]"
  by (simp add: tagsSchema_def handleZodString_def arrayBounds_def withDescription_def)

end
